theory Spec2Isabelle
  imports Main "HOL-Library.Word"
begin

section \<open>The option bag: dynamic values of the host language\<close>

text \<open>
  The decoder of \<^verbatim>\<open>src/core/connection_handle.cxx\<close> reads host-language values
  (\<^verbatim>\<open>zval\<close>) through their type tag. A value is null, a boolean, a 64-bit integer
  (\<^verbatim>\<open>zend_long\<close>), a string or an array: an ordered table from integer or string
  keys to values. The remaining tags (double, object, resource) carry nothing the
  decoder reads, so they share one constructor.
\<close>

type_synonym zend_long = "64 word"

datatype zkey = num_key zend_long | str_key string

datatype zval =
    IS_NULL
  | IS_FALSE
  | IS_TRUE
  | IS_LONG zend_long
  | IS_STRING string
  | IS_ARRAY "(zkey \<times> zval) list"
  | IS_OTHER

text \<open>
  \<^verbatim>\<open>zend_symtable_str_find\<close> with a key that is not the decimal form of an integer:
  the first entry stored under that string key, or the null pointer. Every key the
  decoder looks up is such a name.
\<close>

definition zend_symtable_str_find :: "(zkey \<times> zval) list \<Rightarrow> string \<Rightarrow> zval option" where
  "zend_symtable_str_find ht name = map_of ht (str_key name)"

section \<open>Errors\<close>

text \<open>
  The error codes the source names, and one constructor for every other code the
  engine may report. \<open>no_error\<close> is the default-constructed code, the only one that is
  false in a condition.
\<close>

datatype error_code =
    no_error
  | invalid_argument
  | parsing_failure
  | service_not_available
  | document_not_found
  | engine_errc nat

text \<open>
  A message is a literal or a call of \<^verbatim>\<open>fmt::format\<close>, kept as the format string with
  its arguments in order.
\<close>

datatype fmt_arg =
    arg_str string
  | arg_u64 "64 word"
  | arg_u32 "32 word"
  | arg_ec_value error_code
  | arg_ec_message error_code

datatype message = text_message string | fmt_format string "fmt_arg list"


subsection \<open>Retry reasons\<close>

text \<open>
  \<^verbatim>\<open>io::retry_reason\<close> is an enumeration of the engine; \<open>unmapped_reason\<close> stands for a
  value the switch of \<^verbatim>\<open>retry_reason_to_string\<close> has no case for.
\<close>

datatype retry_reason =
    do_not_retry
  | socket_not_available
  | retry_service_not_available
  | node_not_available
  | kv_not_my_vbucket
  | kv_collection_outdated
  | kv_error_map_retry_indicated
  | kv_locked
  | kv_temporary_failure
  | kv_sync_write_in_progress
  | kv_sync_write_re_commit_in_progress
  | service_response_code_indicated
  | socket_closed_while_in_flight
  | circuit_breaker_open
  | query_prepared_statement_failure
  | query_index_not_found
  | analytics_temporary_failure
  | search_too_many_requests
  | views_temporary_failure
  | views_no_active_partition
  | unknown
  | unmapped_reason nat

fun retry_reason_to_string :: "retry_reason \<Rightarrow> string" where
  "retry_reason_to_string do_not_retry = ''do_not_retry''"
| "retry_reason_to_string socket_not_available = ''socket_not_available''"
| "retry_reason_to_string retry_service_not_available = ''service_not_available''"
| "retry_reason_to_string node_not_available = ''node_not_available''"
| "retry_reason_to_string kv_not_my_vbucket = ''kv_not_my_vbucket''"
| "retry_reason_to_string kv_collection_outdated = ''kv_collection_outdated''"
| "retry_reason_to_string kv_error_map_retry_indicated = ''kv_error_map_retry_indicated''"
| "retry_reason_to_string kv_locked = ''kv_locked''"
| "retry_reason_to_string kv_temporary_failure = ''kv_temporary_failure''"
| "retry_reason_to_string kv_sync_write_in_progress = ''kv_sync_write_in_progress''"
| "retry_reason_to_string kv_sync_write_re_commit_in_progress =
     ''kv_sync_write_re_commit_in_progress''"
| "retry_reason_to_string service_response_code_indicated = ''service_response_code_indicated''"
| "retry_reason_to_string socket_closed_while_in_flight = ''socket_closed_while_in_flight''"
| "retry_reason_to_string circuit_breaker_open = ''circuit_breaker_open''"
| "retry_reason_to_string query_prepared_statement_failure = ''query_prepared_statement_failure''"
| "retry_reason_to_string query_index_not_found = ''query_index_not_found''"
| "retry_reason_to_string analytics_temporary_failure = ''analytics_temporary_failure''"
| "retry_reason_to_string search_too_many_requests = ''search_too_many_requests''"
| "retry_reason_to_string views_temporary_failure = ''views_temporary_failure''"
| "retry_reason_to_string views_no_active_partition = ''views_no_active_partition''"
| "retry_reason_to_string unknown = ''unknown''"
| "retry_reason_to_string (unmapped_reason n) = ''unexpected''"

subsection \<open>Raw failure contexts of the engine\<close>

text \<open>
  What the engine attaches to a response (\<^verbatim>\<open>resp.ctx\<close>), one record per subsystem,
  with the fields the builders read. The engine's headers are not among the sources:
  a field that may be absent (read through \<^verbatim>\<open>if (ctx.f)\<close>, \<^verbatim>\<open>->\<close> or
  \<^verbatim>\<open>value()\<close>) is an \<open>option\<close>, and each other field has one type on both sides of
  its copy.
\<close>

record document_id =
  doc_bucket :: string
  doc_scope :: string
  doc_collection :: string
  doc_key :: string

record error_map_info =
  em_name :: string
  em_description :: string

record enhanced_error_info =
  ee_reference :: string
  ee_context :: string

record raw_key_value =
  kv_ec :: error_code
  kv_id :: document_id
  kv_opaque :: "32 word"
  kv_cas :: "64 word"
  kv_status_code :: "16 word option"
  kv_error_map_info :: "error_map_info option"
  kv_enhanced_error_info :: "enhanced_error_info option"
  kv_last_dispatched_to :: "string option"
  kv_last_dispatched_from :: "string option"
  kv_retry_attempts :: int
  kv_retry_reasons :: "retry_reason set"

record raw_query =
  q_ec :: error_code
  q_client_context_id :: string
  q_statement :: string
  q_parameters :: "string option"
  q_first_error_message :: string
  q_first_error_code :: "64 word"
  q_http_status :: "32 word"
  q_http_body :: string
  q_retry_attempts :: int
  q_retry_reasons :: "retry_reason set"

record raw_analytics =
  a_ec :: error_code
  a_client_context_id :: string
  a_statement :: string
  a_parameters :: "string option"
  a_first_error_message :: string
  a_first_error_code :: "64 word"
  a_http_status :: "32 word"
  a_http_body :: string
  a_retry_attempts :: int
  a_retry_reasons :: "retry_reason set"

record raw_view =
  v_ec :: error_code
  v_client_context_id :: string
  v_design_document_name :: string
  v_view_name :: string
  v_query_string :: string
  v_http_status :: "32 word"
  v_http_body :: string
  v_retry_attempts :: int
  v_retry_reasons :: "retry_reason set"

record raw_search =
  s_ec :: error_code
  s_client_context_id :: string
  s_index_name :: string
  s_query :: string
  s_parameters :: "string option"
  s_http_status :: "32 word"
  s_http_body :: string
  s_retry_attempts :: int
  s_retry_reasons :: "retry_reason set"

record raw_http =
  h_ec :: error_code
  h_client_context_id :: string
  h_method :: string
  h_path :: string
  h_http_status :: "32 word"
  h_http_body :: string
  h_retry_attempts :: int
  h_retry_reasons :: "retry_reason set"
  h_last_dispatched_from :: "string option"
  h_last_dispatched_to :: "string option"

subsection \<open>Typed error contexts\<close>

text \<open>
  The records the builders fill. All of them carry the retry diagnostics and the
  dispatch endpoints; the HTTP-backed ones add the client context id and the HTTP
  status and body. A default-constructed record has no endpoint, no optional field, no
  retry reason, and zero or empty for the rest. Three fields are renamed, since their
  names are taken: \<open>id'\<close> is \<^verbatim>\<open>id\<close>, \<open>query_text\<close> is \<^verbatim>\<open>query\<close> and
  \<open>http_method\<close> is \<^verbatim>\<open>method\<close>; the fields of the analytics context carry the
  prefix \<open>analytics_\<close>, and \<open>search_parameters\<close> is the \<^verbatim>\<open>parameters\<close> of the
  search context.
\<close>

record common_error_context =
  last_dispatched_to :: "string option"
  last_dispatched_from :: "string option"
  retry_attempts :: int
  retry_reasons :: "string set"

record key_value_error_context = common_error_context +
  bucket :: string
  scope :: string
  collection :: string
  id' :: string
  opaque :: "32 word"
  cas :: "64 word"
  status_code :: "16 word option"
  error_map_name :: "string option"
  error_map_description :: "string option"
  enhanced_error_reference :: "string option"
  enhanced_error_context :: "string option"

record common_http_error_context = common_error_context +
  client_context_id :: string
  http_status :: "32 word"
  http_body :: string

record query_error_context = common_http_error_context +
  first_error_code :: "64 word"
  first_error_message :: string
  statement :: string
  parameters :: "string option"

record analytics_error_context = common_http_error_context +
  analytics_first_error_code :: "64 word"
  analytics_first_error_message :: string
  analytics_statement :: string
  analytics_parameters :: "string option"

record view_query_error_context = common_http_error_context +
  design_document_name :: string
  view_name :: string
  query_string :: string

record search_error_context = common_http_error_context +
  index_name :: string
  query_text :: string
  search_parameters :: "string option"

record http_error_context = common_http_error_context +
  http_method :: string
  path :: string

datatype error_context =
    no_error_context
  | key_value_context key_value_error_context
  | query_context query_error_context
  | analytics_context analytics_error_context
  | view_query_context view_query_error_context
  | search_context search_error_context
  | http_context http_error_context

text \<open>
  \<^verbatim>\<open>core_error_info\<close>: the error code, the message and the error context. The source
  location it also carries (\<^verbatim>\<open>__LINE__\<close>, \<^verbatim>\<open>__FILE__\<close>, \<^verbatim>\<open>__func__\<close>) is
  debugging text and is left out. \<open>no_error_info\<close> is \<^verbatim>\<open>{}\<close>.
\<close>

record core_error_info =
  ec :: error_code
  message :: message
  ctx :: error_context

definition no_error_info :: core_error_info where
  "no_error_info = \<lparr>ec = no_error, message = text_message [], ctx = no_error_context\<rparr>"

text \<open>
  How a call ends early: it returns a \<^verbatim>\<open>core_error_info\<close> whose code is set, or it
  runs into behaviour C++ leaves undefined (a null pointer or an empty
  \<^verbatim>\<open>std::optional\<close> is dereferenced, a value is read as a string or array that its
  tag says it is not).
\<close>

datatype failure = failure core_error_info | undefined_behaviour

definition validation_error :: "message \<Rightarrow> failure" where
  "validation_error m = failure \<lparr>ec = invalid_argument, message = m, ctx = no_error_context\<rparr>"


section \<open>Error context builders\<close>

text \<open>The records as \<^verbatim>\<open>key_value_error_context out;\<close> and its siblings leave them.\<close>

definition key_value_error_context_new :: key_value_error_context where
  "key_value_error_context_new =
     \<lparr>last_dispatched_to = None, last_dispatched_from = None, retry_attempts = 0,
      retry_reasons = {}, bucket = [], scope = [], collection = [], id' = [], opaque = 0,
      cas = 0, status_code = None, error_map_name = None, error_map_description = None,
      enhanced_error_reference = None, enhanced_error_context = None\<rparr>"

definition query_error_context_new :: query_error_context where
  "query_error_context_new =
     \<lparr>last_dispatched_to = None, last_dispatched_from = None, retry_attempts = 0,
      retry_reasons = {}, client_context_id = [], http_status = 0, http_body = [],
      first_error_code = 0, first_error_message = [], statement = [], parameters = None\<rparr>"

definition analytics_error_context_new :: analytics_error_context where
  "analytics_error_context_new =
     \<lparr>last_dispatched_to = None, last_dispatched_from = None, retry_attempts = 0,
      retry_reasons = {}, client_context_id = [], http_status = 0, http_body = [],
      analytics_first_error_code = 0, analytics_first_error_message = [],
      analytics_statement = [], analytics_parameters = None\<rparr>"

definition view_query_error_context_new :: view_query_error_context where
  "view_query_error_context_new =
     \<lparr>last_dispatched_to = None, last_dispatched_from = None, retry_attempts = 0,
      retry_reasons = {}, client_context_id = [], http_status = 0, http_body = [],
      design_document_name = [], view_name = [], query_string = []\<rparr>"

definition search_error_context_new :: search_error_context where
  "search_error_context_new =
     \<lparr>last_dispatched_to = None, last_dispatched_from = None, retry_attempts = 0,
      retry_reasons = {}, client_context_id = [], http_status = 0, http_body = [],
      index_name = [], query_text = [], search_parameters = None\<rparr>"

definition http_error_context_new :: http_error_context where
  "http_error_context_new =
     \<lparr>last_dispatched_to = None, last_dispatched_from = None, retry_attempts = 0,
      retry_reasons = {}, client_context_id = [], http_status = 0, http_body = [],
      http_method = [], path = []\<rparr>"

text \<open>
  \<^verbatim>\<open>build_error_context\<close> for the key-value subsystem. The statements run in the
  order of the source. Inside \<^verbatim>\<open>if (ctx.enhanced_error_info)\<close> the second assignment
  reads \<^verbatim>\<open>ctx.error_map_info->description\<close>: the description of the error map
  entry, and a dereference of an empty optional when the response has no such entry.
\<close>

definition build_error_context :: "raw_key_value \<Rightarrow> failure + key_value_error_context" where
  "build_error_context c =
     (let out = key_value_error_context_new
            \<lparr>bucket := doc_bucket (kv_id c),
             scope := doc_scope (kv_id c),
             collection := doc_collection (kv_id c),
             id' := doc_key (kv_id c),
             opaque := kv_opaque c,
             cas := kv_cas c\<rparr>;
          out = (case kv_status_code c of
                   Some st \<Rightarrow> out\<lparr>status_code := Some st\<rparr>
                 | None \<Rightarrow> out);
          out = (case kv_error_map_info c of
                   Some em \<Rightarrow> out\<lparr>error_map_name := Some (em_name em),
                                error_map_description := Some (em_description em)\<rparr>
                 | None \<Rightarrow> out)
      in case (case kv_enhanced_error_info c of
                 Some ee \<Rightarrow>
                   (case kv_error_map_info c of
                      Some em \<Rightarrow>
                        Inr (out\<lparr>enhanced_error_reference := Some (ee_reference ee),
                                 enhanced_error_context := Some (em_description em)\<rparr>)
                    | None \<Rightarrow> Inl undefined_behaviour)
               | None \<Rightarrow> Inr out) of
           Inl stop \<Rightarrow> Inl stop
         | Inr out \<Rightarrow>
             Inr (out\<lparr>last_dispatched_to := kv_last_dispatched_to c,
                      last_dispatched_from := kv_last_dispatched_from c,
                      retry_attempts := kv_retry_attempts c,
                      retry_reasons := retry_reason_to_string ` kv_retry_reasons c\<rparr>))"

definition build_query_error_context :: "raw_query \<Rightarrow> query_error_context" where
  "build_query_error_context c =
     query_error_context_new
       \<lparr>client_context_id := q_client_context_id c,
        statement := q_statement c,
        parameters := q_parameters c,
        first_error_message := q_first_error_message c,
        first_error_code := q_first_error_code c,
        http_status := q_http_status c,
        http_body := q_http_body c,
        retry_attempts := q_retry_attempts c,
        retry_reasons := retry_reason_to_string ` q_retry_reasons c\<rparr>"

definition build_analytics_error_context :: "raw_analytics \<Rightarrow> analytics_error_context" where
  "build_analytics_error_context c =
     analytics_error_context_new
       \<lparr>client_context_id := a_client_context_id c,
        analytics_statement := a_statement c,
        analytics_parameters := a_parameters c,
        analytics_first_error_message := a_first_error_message c,
        analytics_first_error_code := a_first_error_code c,
        http_status := a_http_status c,
        http_body := a_http_body c,
        retry_attempts := a_retry_attempts c,
        retry_reasons := retry_reason_to_string ` a_retry_reasons c\<rparr>"

definition build_view_query_error_context :: "raw_view \<Rightarrow> view_query_error_context" where
  "build_view_query_error_context c =
     view_query_error_context_new
       \<lparr>client_context_id := v_client_context_id c,
        design_document_name := v_design_document_name c,
        view_name := v_view_name c,
        query_string := v_query_string c,
        http_status := v_http_status c,
        http_body := v_http_body c,
        retry_attempts := v_retry_attempts c,
        retry_reasons := retry_reason_to_string ` v_retry_reasons c\<rparr>"

definition build_search_query_error_context :: "raw_search \<Rightarrow> search_error_context" where
  "build_search_query_error_context c =
     search_error_context_new
       \<lparr>client_context_id := s_client_context_id c,
        index_name := s_index_name c,
        query_text := s_query c,
        search_parameters := s_parameters c,
        http_status := s_http_status c,
        http_body := s_http_body c,
        retry_attempts := s_retry_attempts c,
        retry_reasons := retry_reason_to_string ` s_retry_reasons c\<rparr>"

definition build_http_error_context :: "raw_http \<Rightarrow> http_error_context" where
  "build_http_error_context c =
     http_error_context_new
       \<lparr>client_context_id := h_client_context_id c,
        http_method := h_method c,
        path := h_path c,
        http_status := h_http_status c,
        http_body := h_http_body c,
        retry_attempts := h_retry_attempts c,
        retry_reasons := retry_reason_to_string ` h_retry_reasons c,
        last_dispatched_from := h_last_dispatched_from c,
        last_dispatched_to := h_last_dispatched_to c\<rparr>"


section \<open>Option decoding helpers\<close>

text \<open>
  Each helper takes the option bag as a pointer that may be null (\<open>None\<close>). The helpers
  that assign a field are templates over the type of the field: \<open>conv\<close> is the conversion
  the assignment makes to that type, and the helper returns the field's new contents.
  Requests whose timeout a helper sets extend \<open>timed_request\<close>; a field holding \<open>None\<close>
  has not been assigned and keeps the default of its declaration in the engine.
\<close>

record timed_request =
  timeout :: "zend_long option"

datatype durability_level =
    durability_none
  | majority
  | majority_and_persist_to_active
  | persist_to_majority

record durable_request = timed_request +
  durability_level :: "durability_level option"
  durability_timeout :: "zend_long option"

fun cb_assign_timeout ::
  "'a timed_request_scheme \<Rightarrow> zval option \<Rightarrow> failure + 'a timed_request_scheme" where
  "cb_assign_timeout req None = Inr req"
| "cb_assign_timeout req (Some IS_NULL) = Inr req"
| "cb_assign_timeout req (Some (IS_ARRAY ht)) =
     (case zend_symtable_str_find ht ''timeoutMilliseconds'' of
        None \<Rightarrow> Inr req
      | Some IS_NULL \<Rightarrow> Inr req
      | Some (IS_LONG l) \<Rightarrow> Inr (req\<lparr>timeout := Some l\<rparr>)
      | Some _ \<Rightarrow>
          Inl (validation_error
            (text_message ''expected timeoutMilliseconds to be a number in the options'')))"
| "cb_assign_timeout req (Some _) =
     Inl (validation_error (text_message ''expected array for options argument''))"

fun cb_assign_durability ::
  "'a durable_request_scheme \<Rightarrow> zval option \<Rightarrow> failure + 'a durable_request_scheme" where
  "cb_assign_durability req None = Inr req"
| "cb_assign_durability req (Some IS_NULL) = Inr req"
| "cb_assign_durability req (Some (IS_ARRAY ht)) =
     (case zend_symtable_str_find ht ''durabilityLevel'' of
        None \<Rightarrow> Inr req
      | Some IS_NULL \<Rightarrow> Inr req
      | Some (IS_STRING s) \<Rightarrow>
          (case (if s = ''none'' then Inr (req\<lparr>durability_level := Some durability_none\<rparr>)
                 else if s = ''majority'' then Inr (req\<lparr>durability_level := Some majority\<rparr>)
                 else if s = ''majorityAndPersistToActive''
                   then Inr (req\<lparr>durability_level := Some majority_and_persist_to_active\<rparr>)
                 else if s = ''persistToMajority''
                   then Inr (req\<lparr>durability_level := Some persist_to_majority\<rparr>)
                 else Inl (validation_error
                        (fmt_format ''unknown durabilityLevel: {}'' [arg_str s]))) of
             Inl stop \<Rightarrow> Inl stop
           | Inr req \<Rightarrow>
               if durability_level req \<noteq> Some durability_none then
                 (case zend_symtable_str_find ht ''durabilityTimeoutSeconds'' of
                    None \<Rightarrow> Inr req
                  | Some IS_NULL \<Rightarrow> Inr req
                  | Some (IS_LONG l) \<Rightarrow> Inr (req\<lparr>durability_timeout := Some l\<rparr>)
                  | Some _ \<Rightarrow>
                      Inl (validation_error
                        (text_message
                          ''expected durabilityTimeoutSeconds to be a number in the options'')))
               else Inr req)
      | Some _ \<Rightarrow>
          Inl (validation_error
            (text_message ''expected durabilityLevel to be a string in the authenticator'')))"
| "cb_assign_durability req (Some _) =
     Inl (validation_error (text_message ''expected array for options argument''))"

fun cb_assign_boolean :: "(bool \<Rightarrow> 'a) \<Rightarrow> 'a \<Rightarrow> zval option \<Rightarrow> string \<Rightarrow> failure + 'a" where
  "cb_assign_boolean conv field None name = Inr field"
| "cb_assign_boolean conv field (Some IS_NULL) name = Inr field"
| "cb_assign_boolean conv field (Some (IS_ARRAY ht)) name =
     (case zend_symtable_str_find ht name of
        None \<Rightarrow> Inr field
      | Some IS_NULL \<Rightarrow> Inr field
      | Some IS_TRUE \<Rightarrow> Inr (conv True)
      | Some IS_FALSE \<Rightarrow> Inr (conv False)
      | Some _ \<Rightarrow>
          Inl (validation_error
            (fmt_format ''expected {} to be a boolean value in the options'' [arg_str name])))"
| "cb_assign_boolean conv field (Some _) name =
     Inl (validation_error (text_message ''expected array for options argument''))"

fun cb_assign_integer ::
  "(zend_long \<Rightarrow> 'a) \<Rightarrow> 'a \<Rightarrow> zval option \<Rightarrow> string \<Rightarrow> failure + 'a" where
  "cb_assign_integer conv field None name = Inr field"
| "cb_assign_integer conv field (Some IS_NULL) name = Inr field"
| "cb_assign_integer conv field (Some (IS_ARRAY ht)) name =
     (case zend_symtable_str_find ht name of
        None \<Rightarrow> Inr field
      | Some IS_NULL \<Rightarrow> Inr field
      | Some (IS_LONG l) \<Rightarrow> Inr (conv l)
      | Some _ \<Rightarrow>
          Inl (validation_error
            (fmt_format ''expected {} to be a integer value in the options'' [arg_str name])))"
| "cb_assign_integer conv field (Some _) name =
     Inl (validation_error (text_message ''expected array for options argument''))"

fun cb_assign_string :: "(string \<Rightarrow> 'a) \<Rightarrow> 'a \<Rightarrow> zval option \<Rightarrow> string \<Rightarrow> failure + 'a" where
  "cb_assign_string conv field None name = Inr field"
| "cb_assign_string conv field (Some IS_NULL) name = Inr field"
| "cb_assign_string conv field (Some (IS_ARRAY ht)) name =
     (case zend_symtable_str_find ht name of
        None \<Rightarrow> Inr field
      | Some IS_NULL \<Rightarrow> Inr field
      | Some (IS_STRING s) \<Rightarrow> Inr (conv s)
      | Some _ \<Rightarrow>
          Inl (validation_error
            (fmt_format ''expected {} to be a string value in the options'' [arg_str name])))"
| "cb_assign_string conv field (Some _) name =
     Inl (validation_error (text_message ''expected array for options argument''))"

text \<open>
  The loop of \<^verbatim>\<open>cb_assign_vector_of_strings\<close> over the values of the array: every
  string is appended to the field, the first value of another type ends the call.
\<close>

fun append_strings :: "string list \<Rightarrow> string \<Rightarrow> zval list \<Rightarrow> failure + string list" where
  "append_strings field name [] = Inr field"
| "append_strings field name (IS_STRING s # items) = append_strings (field @ [s]) name items"
| "append_strings field name (_ # items) =
     Inl (validation_error
       (fmt_format
         ''expected \"{}\" option to be an array of strings, detected non-string value''
         [arg_str name]))"

fun cb_assign_vector_of_strings ::
  "string list \<Rightarrow> zval option \<Rightarrow> string \<Rightarrow> failure + string list" where
  "cb_assign_vector_of_strings field None name = Inr field"
| "cb_assign_vector_of_strings field (Some IS_NULL) name = Inr field"
| "cb_assign_vector_of_strings field (Some (IS_ARRAY ht)) name =
     (case zend_symtable_str_find ht name of
        None \<Rightarrow> Inr field
      | Some IS_NULL \<Rightarrow> Inr field
      | Some (IS_ARRAY items) \<Rightarrow> append_strings field name (map snd items)
      | Some _ \<Rightarrow>
          Inl (validation_error
            (fmt_format ''expected array for options argument \"{}\"'' [arg_str name])))"
| "cb_assign_vector_of_strings field (Some _) name =
     Inl (validation_error (text_message ''expected array for options''))"

text \<open>
  \<^verbatim>\<open>cb_get_integer<uint64_t>\<close> returns a pair of an error and a number; the pair
  \<^verbatim>\<open>{}\<close> it returns for an absent or null key is no error and the number 0.
\<close>

fun cb_get_integer :: "zval option \<Rightarrow> string \<Rightarrow> failure + 64 word" where
  "cb_get_integer None name = Inr 0"
| "cb_get_integer (Some IS_NULL) name = Inr 0"
| "cb_get_integer (Some (IS_ARRAY ht)) name =
     (case zend_symtable_str_find ht name of
        None \<Rightarrow> Inr 0
      | Some IS_NULL \<Rightarrow> Inr 0
      | Some (IS_LONG l) \<Rightarrow> Inr l
      | Some _ \<Rightarrow>
          Inl (validation_error
            (fmt_format ''expected {} to be a integer value in the options'' [arg_str name])))"
| "cb_get_integer (Some _) name =
     Inl (validation_error (text_message ''expected array for options argument''))"


section \<open>Output values\<close>

text \<open>
  \<^verbatim>\<open>array_init\<close> gives the empty array. The \<^verbatim>\<open>add_assoc_*\<close> functions store a value
  under a string key: in place when the key is there already, at the end otherwise.
  \<^verbatim>\<open>add_next_index_*\<close> appends under the next free integer key.
\<close>

fun add_assoc :: "(zkey \<times> zval) list \<Rightarrow> string \<Rightarrow> zval \<Rightarrow> (zkey \<times> zval) list" where
  "add_assoc [] k v = [(str_key k, v)]"
| "add_assoc (e # ht) k v =
     (if fst e = str_key k then (str_key k, v) # ht else e # add_assoc ht k v)"

definition add_assoc_bool :: "(zkey \<times> zval) list \<Rightarrow> string \<Rightarrow> bool \<Rightarrow> (zkey \<times> zval) list" where
  "add_assoc_bool ht k b = add_assoc ht k (if b then IS_TRUE else IS_FALSE)"

text \<open>
  \<^verbatim>\<open>add_assoc_string\<close> takes a C string: the characters of \<^verbatim>\<open>s.c_str()\<close> up to
  the first zero byte.
\<close>

definition c_str :: "string \<Rightarrow> string" where
  "c_str s = takeWhile (\<lambda>c. c \<noteq> CHR 0x00) s"

text \<open>\<^verbatim>\<open>fmt::format("{:x}", n)\<close> for an unsigned number: lower-case digits, no prefix.\<close>

definition hex_digit :: "nat \<Rightarrow> char" where
  "hex_digit d = ''0123456789abcdef'' ! (d mod 16)"

function to_hex :: "nat \<Rightarrow> string" where
  "to_hex n = (if n < 16 then [hex_digit n] else to_hex (n div 16) @ [hex_digit (n mod 16)])"
  by pat_completeness auto
termination
  by (relation "measure (\<lambda>n. n)") auto

declare to_hex.simps [simp del]

subsection \<open>Mutation tokens\<close>

text \<open>
  \<^verbatim>\<open>couchbase::mutation_token\<close>: the partition UUID and the sequence number are
  unsigned 64-bit numbers, the partition id an unsigned 16-bit number. The value
  \<^verbatim>\<open>mutation_token token {}\<close> is \<open>mutation_token_new\<close>.
\<close>

record mutation_token =
  partition_uuid :: "64 word"
  sequence_number :: "64 word"
  partition_id :: "16 word"
  bucket_name :: string

definition mutation_token_new :: mutation_token where
  "mutation_token_new =
     \<lparr>partition_uuid = 0, sequence_number = 0, partition_id = 0, bucket_name = []\<rparr>"

definition mutation_token_to_zval :: "mutation_token \<Rightarrow> zval" where
  "mutation_token_to_zval token =
     (let rv = [];
          rv = add_assoc rv ''bucketName'' (IS_STRING (bucket_name token));
          rv = add_assoc rv ''partitionId'' (IS_LONG (ucast (partition_id token)));
          rv = add_assoc rv ''partitionUuid'' (IS_STRING (to_hex (unat (partition_uuid token))));
          rv = add_assoc rv ''sequenceNumber'' (IS_STRING (to_hex (unat (sequence_number token))))
      in IS_ARRAY rv)"

definition is_mutation_token_valid :: "mutation_token \<Rightarrow> bool" where
  "is_mutation_token_valid token \<longleftrightarrow> bucket_name token \<noteq> [] \<and> 0 < partition_uuid token"

section \<open>Key-value operations\<close>

subsection \<open>Requests and responses\<close>

text \<open>
  The request and response types of the engine, with the fields this file assigns or
  reads. Every key-value response carries the raw context \<open>kv_ctx\<close>, whose \<open>kv_ec\<close> is
  the status of the call.
\<close>

record upsert_request = durable_request +
  u_id :: document_id
  u_value :: string
  u_flags :: "32 word"
  u_preserve_expiry :: "bool option"
  u_expiry :: "zend_long option"

record get_request = timed_request +
  g_id :: document_id

record get_projected_request = timed_request +
  gp_id :: document_id
  gp_with_expiry :: bool
  gp_projections :: "string list"

record exists_request = timed_request +
  e_id :: document_id

record kv_response =
  kv_ctx :: raw_key_value

record upsert_response = kv_response +
  up_cas :: "64 word"
  up_token :: mutation_token

record get_response = kv_response +
  get_cas :: "64 word"
  get_flags :: "32 word"
  get_value :: string

record get_projected_response = kv_response +
  gpr_cas :: "64 word"
  gpr_flags :: "32 word"
  gpr_value :: string
  gpr_expiry :: "32 word option"

record exists_response = kv_response +
  ex_deleted :: bool
  ex_cas :: "64 word"
  ex_flags :: "32 word"
  ex_datatype :: "8 word"
  ex_expiry :: "32 word"
  ex_sequence_number :: "64 word"

subsection \<open>The blocking call\<close>

text \<open>
  \<^verbatim>\<open>impl::key_value_execute\<close> submits the request and blocks until the engine
  completes it; \<open>execute\<close> is the engine, giving the response the call is completed
  with. A response whose status is set comes back with an error that carries the
  status, a message and the typed error context.
\<close>

definition key_value_execute ::
  "string \<Rightarrow> ('req \<Rightarrow> 'a kv_response_scheme) \<Rightarrow> 'req \<Rightarrow>
     failure + ('a kv_response_scheme \<times> core_error_info)" where
  "key_value_execute operation execute request =
     (let resp = execute request
      in if kv_ec (kv_ctx resp) \<noteq> no_error then
           (case build_error_context (kv_ctx resp) of
              Inl stop \<Rightarrow> Inl stop
            | Inr c \<Rightarrow>
                Inr (resp,
                  \<lparr>ec = kv_ec (kv_ctx resp),
                   message = fmt_format ''unable to execute KV operation \"{}\": {}, {}''
                     [arg_str operation, arg_ec_value (kv_ec (kv_ctx resp)),
                      arg_ec_message (kv_ec (kv_ctx resp))],
                   ctx = key_value_context c\<rparr>))
         else Inr (resp, no_error_info))"

subsection \<open>Upsert\<close>

definition document_upsert_request ::
  "string \<Rightarrow> string \<Rightarrow> string \<Rightarrow> string \<Rightarrow> string \<Rightarrow> zend_long \<Rightarrow> zval option \<Rightarrow>
     failure + upsert_request" where
  "document_upsert_request bucket_s scope_s collection_s id_s value_s flags options =
     (let doc_id = \<lparr>doc_bucket = bucket_s, doc_scope = scope_s,
                     doc_collection = collection_s, doc_key = id_s\<rparr>;
          request = \<lparr>timeout = None, durability_level = None, durability_timeout = None,
                     u_id = doc_id, u_value = value_s, u_flags = ucast flags,
                     u_preserve_expiry = None, u_expiry = None\<rparr>
      in case cb_assign_timeout request options of
           Inl e \<Rightarrow> Inl e
         | Inr request \<Rightarrow>
        (case cb_assign_durability request options of
           Inl e \<Rightarrow> Inl e
         | Inr request \<Rightarrow>
        (case cb_assign_boolean Some (u_preserve_expiry request) options ''preserveExpiry'' of
           Inl e \<Rightarrow> Inl e
         | Inr b \<Rightarrow>
        (case cb_assign_integer Some (u_expiry request) options ''expiry'' of
           Inl e \<Rightarrow> Inl e
         | Inr n \<Rightarrow> Inr (request\<lparr>u_preserve_expiry := b, u_expiry := n\<rparr>)))))"

definition document_upsert ::
  "(upsert_request \<Rightarrow> upsert_response) \<Rightarrow>
     string \<Rightarrow> string \<Rightarrow> string \<Rightarrow> string \<Rightarrow> string \<Rightarrow> zend_long \<Rightarrow> zval option \<Rightarrow>
     failure + (zkey \<times> zval) list" where
  "document_upsert execute bucket_s scope_s collection_s id_s value_s flags options =
     (case document_upsert_request bucket_s scope_s collection_s id_s value_s flags options of
        Inl e \<Rightarrow> Inl e
      | Inr request \<Rightarrow>
     (case key_value_execute ''document_upsert'' execute request of
        Inl stop \<Rightarrow> Inl stop
      | Inr (resp, err) \<Rightarrow>
          if ec err \<noteq> no_error then Inl (failure err)
          else
            (let return_value = [];
                 return_value =
                   add_assoc return_value ''cas'' (IS_STRING (to_hex (unat (up_cas resp))))
             in if is_mutation_token_valid (up_token resp)
                then Inr (add_assoc return_value ''mutationToken''
                            (mutation_token_to_zval (up_token resp)))
                else Inr return_value)))"

subsection \<open>Get\<close>

text \<open>
  \<^verbatim>\<open>document_get\<close> selects the shape of the request: a plain get when neither the
  expiry nor a projection is asked for, a projected get otherwise. Each shape has its
  own call of the engine.
\<close>

definition document_get ::
  "(get_request \<Rightarrow> get_response) \<Rightarrow> (get_projected_request \<Rightarrow> get_projected_response) \<Rightarrow>
     string \<Rightarrow> string \<Rightarrow> string \<Rightarrow> string \<Rightarrow> zval option \<Rightarrow>
     failure + (zkey \<times> zval) list" where
  "document_get execute execute_projected bucket_s scope_s collection_s id_s options =
     (let doc_id = \<lparr>doc_bucket = bucket_s, doc_scope = scope_s,
                     doc_collection = collection_s, doc_key = id_s\<rparr>
      in case cb_assign_boolean (\<lambda>b. b) False options ''withExpiry'' of
           Inl e \<Rightarrow> Inl e
         | Inr with_expiry \<Rightarrow>
        (case cb_assign_vector_of_strings [] options ''projections'' of
           Inl e \<Rightarrow> Inl e
         | Inr projections \<Rightarrow>
             if \<not> with_expiry \<and> projections = [] then
               (case cb_assign_timeout \<lparr>timeout = None, g_id = doc_id\<rparr> options of
                  Inl e \<Rightarrow> Inl e
                | Inr request \<Rightarrow>
               (case key_value_execute ''document_get'' execute request of
                  Inl stop \<Rightarrow> Inl stop
                | Inr (resp, err) \<Rightarrow>
                    if ec err \<noteq> no_error then Inl (failure err)
                    else
                      (let return_value = [];
                           return_value = add_assoc return_value ''cas''
                             (IS_STRING (to_hex (unat (get_cas resp))));
                           return_value = add_assoc return_value ''flags''
                             (IS_LONG (ucast (get_flags resp)));
                           return_value = add_assoc return_value ''value''
                             (IS_STRING (get_value resp))
                       in Inr return_value)))
             else
               (case cb_assign_timeout
                       \<lparr>timeout = None, gp_id = doc_id, gp_with_expiry = with_expiry,
                        gp_projections = projections\<rparr> options of
                  Inl e \<Rightarrow> Inl e
                | Inr request \<Rightarrow>
               (case key_value_execute ''document_get'' execute_projected request of
                  Inl stop \<Rightarrow> Inl stop
                | Inr (resp, err) \<Rightarrow>
                    if ec err \<noteq> no_error then Inl (failure err)
                    else
                      (let return_value = [];
                           return_value = add_assoc return_value ''cas''
                             (IS_STRING (to_hex (unat (gpr_cas resp))));
                           return_value = add_assoc return_value ''flags''
                             (IS_LONG (ucast (gpr_flags resp)));
                           return_value = add_assoc return_value ''value''
                             (IS_STRING (gpr_value resp))
                       in case gpr_expiry resp of
                            Some expiry \<Rightarrow>
                              Inr (add_assoc return_value ''expiry'' (IS_LONG (ucast expiry)))
                          | None \<Rightarrow> Inr return_value)))))"

subsection \<open>Exists\<close>

text \<open>
  \<^verbatim>\<open>document_exists\<close> returns the error of the call only when the status is not
  \<^verbatim>\<open>document_not_found\<close>. The accessor \<^verbatim>\<open>resp.exists()\<close> belongs to the engine's
  response type, whose header is not among the sources: it is the parameter
  \<open>resp_exists\<close>.
\<close>

definition document_exists ::
  "(exists_response \<Rightarrow> bool) \<Rightarrow> (exists_request \<Rightarrow> exists_response) \<Rightarrow>
     string \<Rightarrow> string \<Rightarrow> string \<Rightarrow> string \<Rightarrow> zval option \<Rightarrow>
     failure + (zkey \<times> zval) list" where
  "document_exists resp_exists execute bucket_s scope_s collection_s id_s options =
     (let doc_id = \<lparr>doc_bucket = bucket_s, doc_scope = scope_s,
                     doc_collection = collection_s, doc_key = id_s\<rparr>
      in case cb_assign_timeout \<lparr>timeout = None, e_id = doc_id\<rparr> options of
           Inl e \<Rightarrow> Inl e
         | Inr request \<Rightarrow>
        (case key_value_execute ''document_exists'' execute request of
           Inl stop \<Rightarrow> Inl stop
         | Inr (resp, err) \<Rightarrow>
             if ec err \<noteq> no_error \<and> kv_ec (kv_ctx resp) \<noteq> document_not_found
             then Inl (failure err)
             else
               (let return_value = [];
                    return_value = add_assoc_bool return_value ''exists'' (resp_exists resp);
                    return_value = add_assoc_bool return_value ''deleted'' (ex_deleted resp);
                    return_value = add_assoc return_value ''cas''
                      (IS_STRING (to_hex (unat (ex_cas resp))));
                    return_value = add_assoc return_value ''flags''
                      (IS_LONG (ucast (ex_flags resp)));
                    return_value = add_assoc return_value ''datatype''
                      (IS_LONG (ucast (ex_datatype resp)));
                    return_value = add_assoc return_value ''expiry''
                      (IS_LONG (ucast (ex_expiry resp)));
                    return_value = add_assoc return_value ''sequenceNumber''
                      (IS_STRING (to_hex (unat (ex_sequence_number resp))))
                in Inr return_value)))"

section \<open>Query operations\<close>

subsection \<open>Loops over the values of an option\<close>

text \<open>
  A decoder runs its statements in order and returns at the first error:
  \<open>run_steps\<close> threads the request through them.
\<close>

fun run_steps :: "('r \<Rightarrow> failure + 'r) list \<Rightarrow> 'r \<Rightarrow> failure + 'r" where
  "run_steps [] r = Inr r"
| "run_steps (step # steps) r =
     (case step r of Inl e \<Rightarrow> Inl e | Inr r' \<Rightarrow> run_steps steps r')"

text \<open>
  The loops that copy the values of an array option read each value with
  \<^verbatim>\<open>Z_STRVAL_P\<close> and \<^verbatim>\<open>Z_STRLEN_P\<close> without looking at its tag, and the loops over
  keys and values read the key with \<^verbatim>\<open>cb_string_new\<close>, which dereferences it: a
  value that is no string, or an entry under an integer key (whose key pointer is
  null), is undefined behaviour.
\<close>

fun read_strings :: "string list \<Rightarrow> zval list \<Rightarrow> failure + string list" where
  "read_strings params [] = Inr params"
| "read_strings params (IS_STRING s # items) = read_strings (params @ [s]) items"
| "read_strings params (_ # items) = Inl undefined_behaviour"

fun read_string_map ::
  "(string \<rightharpoonup> string) \<Rightarrow> (zkey \<times> zval) list \<Rightarrow> failure + (string \<rightharpoonup> string)" where
  "read_string_map params [] = Inr params"
| "read_string_map params ((str_key k, IS_STRING s) # entries) =
     read_string_map (params(k \<mapsto> s)) entries"
| "read_string_map params (_ # entries) = Inl undefined_behaviour"

text \<open>
  \<^verbatim>\<open>Z_ARRVAL_P(options)\<close> where the decoder calls \<^verbatim>\<open>zend_symtable_str_find\<close> itself:
  the table of an array, undefined for a null pointer and for a value of another tag.
\<close>

fun Z_ARRVAL_P :: "zval option \<Rightarrow> failure + (zkey \<times> zval) list" where
  "Z_ARRVAL_P (Some (IS_ARRAY ht)) = Inr ht"
| "Z_ARRVAL_P _ = Inl undefined_behaviour"

text \<open>
  The body of the loop over \<open>consistentWith\<close>. It starts from an empty token and
  assigns its four fields with the helpers, passing them \<^verbatim>\<open>options\<close>, the whole
  bag: the loop variable \<^verbatim>\<open>item\<close> is not read.
\<close>

definition read_mutation_token :: "zval option \<Rightarrow> zval \<Rightarrow> failure + mutation_token" where
  "read_mutation_token options item =
     (let token = mutation_token_new
      in case cb_assign_integer ucast (partition_id token) options ''partitionId'' of
           Inl e \<Rightarrow> Inl e
         | Inr pid \<Rightarrow>
        (case cb_assign_integer (\<lambda>l. l) (partition_uuid token) options ''partitionUuid'' of
           Inl e \<Rightarrow> Inl e
         | Inr uuid \<Rightarrow>
        (case cb_assign_integer (\<lambda>l. l) (sequence_number token) options ''sequenceNumber'' of
           Inl e \<Rightarrow> Inl e
         | Inr seqno \<Rightarrow>
        (case cb_assign_string (\<lambda>s. s) (bucket_name token) options ''bucketName'' of
           Inl e \<Rightarrow> Inl e
         | Inr name \<Rightarrow>
             Inr (token\<lparr>partition_id := pid, partition_uuid := uuid,
                        sequence_number := seqno, bucket_name := name\<rparr>)))))"

fun read_mutation_tokens ::
  "mutation_token list \<Rightarrow> zval option \<Rightarrow> zval list \<Rightarrow> failure + mutation_token list" where
  "read_mutation_tokens vectors options [] = Inr vectors"
| "read_mutation_tokens vectors options (item # items) =
     (case read_mutation_token options item of
        Inl e \<Rightarrow> Inl e
      | Inr token \<Rightarrow> read_mutation_tokens (vectors @ [token]) options items)"

text \<open>
  A step that reads an array option looks the key up in \<^verbatim>\<open>Z_ARRVAL_P(options)\<close>
  and runs its body under the guard \<^verbatim>\<open>value != nullptr && Z_TYPE_P(value) == IS_ARRAY\<close>:
  it does nothing unless the key is present and holds an array.
\<close>

definition array_option ::
  "zval option \<Rightarrow> string \<Rightarrow> ((zkey \<times> zval) list \<Rightarrow> failure + 'r) \<Rightarrow> 'r \<Rightarrow> failure + 'r" where
  "array_option options name body r =
     (case Z_ARRVAL_P options of
        Inl stop \<Rightarrow> Inl stop
      | Inr ht \<Rightarrow>
          (case zend_symtable_str_find ht name of
             Some (IS_ARRAY entries) \<Rightarrow> body entries
           | _ \<Rightarrow> Inr r))"

subsection \<open>N1QL query\<close>

datatype scan_consistency_type = not_bounded | request_plus

datatype profile_mode = profile_off | phases | timings

record query_request = timed_request +
  qr_statement :: string
  qr_scan_consistency :: "scan_consistency_type option"
  qr_scan_cap :: "zend_long option"
  qr_pipeline_cap :: "zend_long option"
  qr_pipeline_batch :: "zend_long option"
  qr_max_parallelism :: "zend_long option"
  qr_profile :: "profile_mode option"
  qr_readonly :: "bool option"
  qr_flex_index :: "bool option"
  qr_adhoc :: "bool option"
  qr_positional_parameters :: "string list option"
  qr_named_parameters :: "(string \<rightharpoonup> string) option"
  qr_raw :: "(string \<rightharpoonup> string) option"
  qr_mutation_state :: "mutation_token list option"
  qr_client_context_id :: "string option"
  qr_metrics :: "bool option"
  qr_preserve_expiry :: "bool option"
  qr_scope_name :: "string option"
  qr_bucket_name :: "string option"

definition query_request_new :: "string \<Rightarrow> query_request" where
  "query_request_new statement_s =
     \<lparr>timeout = None, qr_statement = statement_s, qr_scan_consistency = None,
      qr_scan_cap = None, qr_pipeline_cap = None, qr_pipeline_batch = None,
      qr_max_parallelism = None, qr_profile = None, qr_readonly = None,
      qr_flex_index = None, qr_adhoc = None, qr_positional_parameters = None,
      qr_named_parameters = None, qr_raw = None, qr_mutation_state = None,
      qr_client_context_id = None, qr_metrics = None, qr_preserve_expiry = None,
      qr_scope_name = None, qr_bucket_name = None\<rparr>"

definition query_scan_consistency :: "zval option \<Rightarrow> query_request \<Rightarrow> failure + query_request" where
  "query_scan_consistency options request =
     (case cb_get_integer options ''scanConsistency'' of
        Inl e \<Rightarrow> Inl e
      | Inr scan_consistency \<Rightarrow>
          if scan_consistency = 1 then Inr (request\<lparr>qr_scan_consistency := Some not_bounded\<rparr>)
          else if scan_consistency = 2
            then Inr (request\<lparr>qr_scan_consistency := Some request_plus\<rparr>)
          else if 0 < scan_consistency
            then Inl (validation_error
                   (fmt_format ''invalid value used for scan consistency: {}''
                      [arg_u64 scan_consistency]))
          else Inr request)"

definition query_profile :: "zval option \<Rightarrow> query_request \<Rightarrow> failure + query_request" where
  "query_profile options request =
     (case cb_get_integer options ''profile'' of
        Inl e \<Rightarrow> Inl e
      | Inr profile \<Rightarrow>
          if profile = 1 then Inr (request\<lparr>qr_profile := Some profile_off\<rparr>)
          else if profile = 2 then Inr (request\<lparr>qr_profile := Some phases\<rparr>)
          else if profile = 3 then Inr (request\<lparr>qr_profile := Some timings\<rparr>)
          else if 0 < profile
            then Inl (validation_error
                   (fmt_format ''invalid value used for profile: {}'' [arg_u64 profile]))
          else Inr request)"

definition query_steps :: "zval option \<Rightarrow> (query_request \<Rightarrow> failure + query_request) list" where
  "query_steps options =
     [\<lambda>r. cb_assign_timeout r options,
      query_scan_consistency options,
      \<lambda>r. case cb_assign_integer Some (qr_scan_cap r) options ''scanCap'' of
             Inl e \<Rightarrow> Inl e | Inr v \<Rightarrow> Inr (r\<lparr>qr_scan_cap := v\<rparr>),
      \<lambda>r. case cb_assign_integer Some (qr_pipeline_cap r) options ''pipelineCap'' of
             Inl e \<Rightarrow> Inl e | Inr v \<Rightarrow> Inr (r\<lparr>qr_pipeline_cap := v\<rparr>),
      \<lambda>r. case cb_assign_integer Some (qr_pipeline_batch r) options ''pipelineBatch'' of
             Inl e \<Rightarrow> Inl e | Inr v \<Rightarrow> Inr (r\<lparr>qr_pipeline_batch := v\<rparr>),
      \<lambda>r. case cb_assign_integer Some (qr_max_parallelism r) options ''maxParallelism'' of
             Inl e \<Rightarrow> Inl e | Inr v \<Rightarrow> Inr (r\<lparr>qr_max_parallelism := v\<rparr>),
      query_profile options,
      \<lambda>r. case cb_assign_boolean Some (qr_readonly r) options ''readonly'' of
             Inl e \<Rightarrow> Inl e | Inr v \<Rightarrow> Inr (r\<lparr>qr_readonly := v\<rparr>),
      \<lambda>r. case cb_assign_boolean Some (qr_flex_index r) options ''flexIndex'' of
             Inl e \<Rightarrow> Inl e | Inr v \<Rightarrow> Inr (r\<lparr>qr_flex_index := v\<rparr>),
      \<lambda>r. case cb_assign_boolean Some (qr_adhoc r) options ''adHoc'' of
             Inl e \<Rightarrow> Inl e | Inr v \<Rightarrow> Inr (r\<lparr>qr_adhoc := v\<rparr>),
      \<lambda>r. array_option options ''positionalParameters''
             (\<lambda>entries. case read_strings [] (map snd entries) of
                Inl e \<Rightarrow> Inl e
              | Inr params \<Rightarrow> Inr (r\<lparr>qr_positional_parameters := Some params\<rparr>)) r,
      \<lambda>r. array_option options ''namedParameters''
             (\<lambda>entries. case read_string_map Map.empty entries of
                Inl e \<Rightarrow> Inl e
              | Inr params \<Rightarrow> Inr (r\<lparr>qr_named_parameters := Some params\<rparr>)) r,
      \<lambda>r. array_option options ''raw''
             (\<lambda>entries. case read_string_map Map.empty entries of
                Inl e \<Rightarrow> Inl e
              | Inr params \<Rightarrow> Inr (r\<lparr>qr_raw := Some params\<rparr>)) r,
      \<lambda>r. array_option options ''consistentWith''
             (\<lambda>entries. case read_mutation_tokens [] options (map snd entries) of
                Inl e \<Rightarrow> Inl e
              | Inr vectors \<Rightarrow> Inr (r\<lparr>qr_mutation_state := Some vectors\<rparr>)) r,
      \<lambda>r. case cb_assign_string Some (qr_client_context_id r) options ''clientContextId'' of
             Inl e \<Rightarrow> Inl e | Inr v \<Rightarrow> Inr (r\<lparr>qr_client_context_id := v\<rparr>),
      \<lambda>r. case cb_assign_boolean Some (qr_metrics r) options ''metrics'' of
             Inl e \<Rightarrow> Inl e | Inr v \<Rightarrow> Inr (r\<lparr>qr_metrics := v\<rparr>),
      \<lambda>r. case cb_assign_boolean Some (qr_preserve_expiry r) options ''preserveExpiry'' of
             Inl e \<Rightarrow> Inl e | Inr v \<Rightarrow> Inr (r\<lparr>qr_preserve_expiry := v\<rparr>),
      \<lambda>r. case cb_assign_string Some (qr_scope_name r) options ''scopeName'' of
             Inl e \<Rightarrow> Inl e | Inr v \<Rightarrow> Inr (r\<lparr>qr_scope_name := v\<rparr>),
      \<lambda>r. case cb_assign_string Some (qr_bucket_name r) options ''bucketName'' of
             Inl e \<Rightarrow> Inl e | Inr v \<Rightarrow> Inr (r\<lparr>qr_bucket_name := v\<rparr>)]"

text \<open>
  The decoding part of \<^verbatim>\<open>connection_handle::query\<close>: everything before the call
  of the engine.
\<close>

definition query_request_of :: "string \<Rightarrow> zval option \<Rightarrow> failure + query_request" where
  "query_request_of statement_s options =
     run_steps (query_steps options) (query_request_new statement_s)"

subsection \<open>The blocking calls of the query services\<close>

text \<open>
  Each of \<^verbatim>\<open>impl::query\<close>, \<^verbatim>\<open>impl::analytics_query\<close>, \<^verbatim>\<open>impl::view_query\<close>,
  \<^verbatim>\<open>impl::search_query\<close> and \<^verbatim>\<open>impl::search_index_upsert\<close> returns a pair of an
  error and a response, of which one is empty: the error with its context when the
  status of the response is set (\<open>Inl\<close>), the response otherwise (\<open>Inr\<close>). A response
  record holds the raw context; the rows and metadata of the engine's response type
  are the extension of the record.
\<close>

record query_response =
  query_ctx :: raw_query

record analytics_response =
  analytics_ctx :: raw_analytics

record document_view_response =
  view_ctx :: raw_view

record search_response =
  search_ctx :: raw_search

record search_index_upsert_response =
  index_ctx :: raw_http
  index_status :: string
  index_error :: string

definition impl_query ::
  "('req \<Rightarrow> 'a query_response_scheme) \<Rightarrow> 'req \<Rightarrow> core_error_info + 'a query_response_scheme" where
  "impl_query execute request =
     (let resp = execute request
      in if q_ec (query_ctx resp) \<noteq> no_error then
           Inl \<lparr>ec = q_ec (query_ctx resp),
                message = fmt_format ''unable to query: {}, {}''
                  [arg_ec_value (q_ec (query_ctx resp)), arg_ec_message (q_ec (query_ctx resp))],
                ctx = query_context (build_query_error_context (query_ctx resp))\<rparr>
         else Inr resp)"

definition impl_analytics_query ::
  "('req \<Rightarrow> 'a analytics_response_scheme) \<Rightarrow> 'req \<Rightarrow>
     core_error_info + 'a analytics_response_scheme" where
  "impl_analytics_query execute request =
     (let resp = execute request
      in if a_ec (analytics_ctx resp) \<noteq> no_error then
           Inl \<lparr>ec = a_ec (analytics_ctx resp),
                message = fmt_format ''unable to query: {}, {}''
                  [arg_ec_value (a_ec (analytics_ctx resp)),
                   arg_ec_message (a_ec (analytics_ctx resp))],
                ctx = analytics_context (build_analytics_error_context (analytics_ctx resp))\<rparr>
         else Inr resp)"

definition impl_view_query ::
  "('req \<Rightarrow> 'a document_view_response_scheme) \<Rightarrow> 'req \<Rightarrow>
     core_error_info + 'a document_view_response_scheme" where
  "impl_view_query execute request =
     (let resp = execute request
      in if v_ec (view_ctx resp) \<noteq> no_error then
           Inl \<lparr>ec = v_ec (view_ctx resp),
                message = fmt_format ''unable to view query: {}, {}''
                  [arg_ec_value (v_ec (view_ctx resp)), arg_ec_message (v_ec (view_ctx resp))],
                ctx = view_query_context (build_view_query_error_context (view_ctx resp))\<rparr>
         else Inr resp)"

definition impl_search_query ::
  "('req \<Rightarrow> 'a search_response_scheme) \<Rightarrow> 'req \<Rightarrow>
     core_error_info + 'a search_response_scheme" where
  "impl_search_query execute request =
     (let resp = execute request
      in if s_ec (search_ctx resp) \<noteq> no_error then
           Inl \<lparr>ec = s_ec (search_ctx resp),
                message = fmt_format ''unable to search query: {}, {}''
                  [arg_ec_value (s_ec (search_ctx resp)), arg_ec_message (s_ec (search_ctx resp))],
                ctx = search_context (build_search_query_error_context (search_ctx resp))\<rparr>
         else Inr resp)"

definition impl_search_index_upsert ::
  "('req \<Rightarrow> 'a search_index_upsert_response_scheme) \<Rightarrow> 'req \<Rightarrow>
     core_error_info + 'a search_index_upsert_response_scheme" where
  "impl_search_index_upsert execute request =
     (let resp = execute request
      in if h_ec (index_ctx resp) \<noteq> no_error then
           Inl \<lparr>ec = h_ec (index_ctx resp),
                message = fmt_format ''unable to upsert search index: {}, {}''
                  [arg_ec_value (h_ec (index_ctx resp)), arg_ec_message (h_ec (index_ctx resp))],
                ctx = http_context (build_http_error_context (index_ctx resp))\<rparr>
         else Inr resp)"

text \<open>
  \<^verbatim>\<open>connection_handle::query\<close>. After a successful call the source copies the
  fields of the response into the output array, a step that reads nothing but the
  response and returns no error; here the operation returns the response it hands to
  that step. The same holds for the analytics, search and view queries below.
\<close>

definition query ::
  "(query_request \<Rightarrow> 'a query_response_scheme) \<Rightarrow> string \<Rightarrow> zval option \<Rightarrow>
     failure + 'a query_response_scheme" where
  "query execute statement_s options =
     (case query_request_of statement_s options of
        Inl e \<Rightarrow> Inl e
      | Inr request \<Rightarrow>
          (case impl_query execute request of
             Inl err \<Rightarrow> Inl (failure err)
           | Inr resp \<Rightarrow> Inr resp))"

subsection \<open>Analytics query\<close>

record analytics_request = timed_request +
  ar_statement :: string
  ar_scan_consistency :: "scan_consistency_type option"
  ar_readonly :: "bool option"
  ar_priority :: "bool option"
  ar_positional_parameters :: "string list option"
  ar_named_parameters :: "(string \<rightharpoonup> string) option"
  ar_raw :: "(string \<rightharpoonup> string) option"
  ar_client_context_id :: "string option"
  ar_scope_name :: "string option"
  ar_bucket_name :: "string option"

definition analytics_request_new :: "string \<Rightarrow> analytics_request" where
  "analytics_request_new statement_s =
     \<lparr>timeout = None, ar_statement = statement_s, ar_scan_consistency = None,
      ar_readonly = None, ar_priority = None, ar_positional_parameters = None,
      ar_named_parameters = None, ar_raw = None, ar_client_context_id = None,
      ar_scope_name = None, ar_bucket_name = None\<rparr>"

definition analytics_scan_consistency ::
  "zval option \<Rightarrow> analytics_request \<Rightarrow> failure + analytics_request" where
  "analytics_scan_consistency options request =
     (case cb_get_integer options ''scanConsistency'' of
        Inl e \<Rightarrow> Inl e
      | Inr scan_consistency \<Rightarrow>
          if scan_consistency = 1 then Inr (request\<lparr>ar_scan_consistency := Some not_bounded\<rparr>)
          else if scan_consistency = 2
            then Inr (request\<lparr>ar_scan_consistency := Some request_plus\<rparr>)
          else if 0 < scan_consistency
            then Inl (validation_error
                   (fmt_format ''invalid value used for scan consistency: {}''
                      [arg_u64 scan_consistency]))
          else Inr request)"

definition analytics_steps :: "zval option \<Rightarrow> (analytics_request \<Rightarrow> failure + analytics_request) list" where
  "analytics_steps options =
     [\<lambda>r. cb_assign_timeout r options,
      analytics_scan_consistency options,
      \<lambda>r. case cb_assign_boolean Some (ar_readonly r) options ''readonly'' of
             Inl e \<Rightarrow> Inl e | Inr v \<Rightarrow> Inr (r\<lparr>ar_readonly := v\<rparr>),
      \<lambda>r. case cb_assign_boolean Some (ar_priority r) options ''priority'' of
             Inl e \<Rightarrow> Inl e | Inr v \<Rightarrow> Inr (r\<lparr>ar_priority := v\<rparr>),
      \<lambda>r. array_option options ''positionalParameters''
             (\<lambda>entries. case read_strings [] (map snd entries) of
                Inl e \<Rightarrow> Inl e
              | Inr params \<Rightarrow> Inr (r\<lparr>ar_positional_parameters := Some params\<rparr>)) r,
      \<lambda>r. array_option options ''namedParameters''
             (\<lambda>entries. case read_string_map Map.empty entries of
                Inl e \<Rightarrow> Inl e
              | Inr params \<Rightarrow> Inr (r\<lparr>ar_named_parameters := Some params\<rparr>)) r,
      \<lambda>r. array_option options ''raw''
             (\<lambda>entries. case read_string_map Map.empty entries of
                Inl e \<Rightarrow> Inl e
              | Inr params \<Rightarrow> Inr (r\<lparr>ar_raw := Some params\<rparr>)) r,
      \<lambda>r. case cb_assign_string Some (ar_client_context_id r) options ''clientContextId'' of
             Inl e \<Rightarrow> Inl e | Inr v \<Rightarrow> Inr (r\<lparr>ar_client_context_id := v\<rparr>),
      \<lambda>r. case cb_assign_string Some (ar_scope_name r) options ''scopeName'' of
             Inl e \<Rightarrow> Inl e | Inr v \<Rightarrow> Inr (r\<lparr>ar_scope_name := v\<rparr>),
      \<lambda>r. case cb_assign_string Some (ar_bucket_name r) options ''bucketName'' of
             Inl e \<Rightarrow> Inl e | Inr v \<Rightarrow> Inr (r\<lparr>ar_bucket_name := v\<rparr>)]"

definition analytics_query ::
  "(analytics_request \<Rightarrow> 'a analytics_response_scheme) \<Rightarrow> string \<Rightarrow> zval option \<Rightarrow>
     failure + 'a analytics_response_scheme" where
  "analytics_query execute statement_s options =
     (case run_steps (analytics_steps options) (analytics_request_new statement_s) of
        Inl e \<Rightarrow> Inl e
      | Inr request \<Rightarrow>
          (case impl_analytics_query execute request of
             Inl err \<Rightarrow> Inl (failure err)
           | Inr resp \<Rightarrow> Inr resp))"

subsection \<open>Search query\<close>

datatype highlight_style_type = ansi | html

record search_request = timed_request +
  sr_index_name :: string
  sr_query :: string
  sr_limit :: "zend_long option"
  sr_skip :: "zend_long option"
  sr_explain :: "bool option"
  sr_disable_scoring :: "bool option"
  sr_include_locations :: "bool option"
  sr_highlight_fields :: "string list"
  sr_fields :: "string list"
  sr_collections :: "string list"
  sr_sort_specs :: "string list"
  sr_highlight_style :: "highlight_style_type option"
  sr_mutation_state :: "mutation_token list option"
  sr_raw :: "(string \<rightharpoonup> string) option"
  sr_facets :: "(string \<rightharpoonup> string) option"
  sr_client_context_id :: "string option"

definition search_request_new :: "string \<Rightarrow> string \<Rightarrow> search_request" where
  "search_request_new index_name_s query_s =
     \<lparr>timeout = None, sr_index_name = index_name_s, sr_query = query_s, sr_limit = None,
      sr_skip = None, sr_explain = None, sr_disable_scoring = None,
      sr_include_locations = None, sr_highlight_fields = [], sr_fields = [],
      sr_collections = [], sr_sort_specs = [], sr_highlight_style = None,
      sr_mutation_state = None, sr_raw = None, sr_facets = None,
      sr_client_context_id = None\<rparr>"

definition search_highlight_style :: "zval option \<Rightarrow> search_request \<Rightarrow> failure + search_request" where
  "search_highlight_style options request =
     (case cb_get_integer options ''highlightStyle'' of
        Inl e \<Rightarrow> Inl e
      | Inr highlight_style \<Rightarrow>
          if highlight_style = 1 then Inr (request\<lparr>sr_highlight_style := Some ansi\<rparr>)
          else if highlight_style = 2 then Inr (request\<lparr>sr_highlight_style := Some html\<rparr>)
          else if 0 < highlight_style
            then Inl (validation_error
                   (fmt_format ''invalid value used for highlight style: {}''
                      [arg_u64 highlight_style]))
          else Inr request)"

definition search_steps :: "zval option \<Rightarrow> (search_request \<Rightarrow> failure + search_request) list" where
  "search_steps options =
     [\<lambda>r. cb_assign_timeout r options,
      \<lambda>r. case cb_assign_integer Some (sr_limit r) options ''limit'' of
             Inl e \<Rightarrow> Inl e | Inr v \<Rightarrow> Inr (r\<lparr>sr_limit := v\<rparr>),
      \<lambda>r. case cb_assign_integer Some (sr_skip r) options ''skip'' of
             Inl e \<Rightarrow> Inl e | Inr v \<Rightarrow> Inr (r\<lparr>sr_skip := v\<rparr>),
      \<lambda>r. case cb_assign_boolean Some (sr_explain r) options ''explain'' of
             Inl e \<Rightarrow> Inl e | Inr v \<Rightarrow> Inr (r\<lparr>sr_explain := v\<rparr>),
      \<lambda>r. case cb_assign_boolean Some (sr_disable_scoring r) options ''disableScoring'' of
             Inl e \<Rightarrow> Inl e | Inr v \<Rightarrow> Inr (r\<lparr>sr_disable_scoring := v\<rparr>),
      \<lambda>r. case cb_assign_boolean Some (sr_include_locations r) options ''includeLocations'' of
             Inl e \<Rightarrow> Inl e | Inr v \<Rightarrow> Inr (r\<lparr>sr_include_locations := v\<rparr>),
      \<lambda>r. case cb_assign_vector_of_strings (sr_highlight_fields r) options ''highlightFields'' of
             Inl e \<Rightarrow> Inl e | Inr v \<Rightarrow> Inr (r\<lparr>sr_highlight_fields := v\<rparr>),
      \<lambda>r. case cb_assign_vector_of_strings (sr_fields r) options ''fields'' of
             Inl e \<Rightarrow> Inl e | Inr v \<Rightarrow> Inr (r\<lparr>sr_fields := v\<rparr>),
      \<lambda>r. case cb_assign_vector_of_strings (sr_collections r) options ''collections'' of
             Inl e \<Rightarrow> Inl e | Inr v \<Rightarrow> Inr (r\<lparr>sr_collections := v\<rparr>),
      \<lambda>r. case cb_assign_vector_of_strings (sr_sort_specs r) options ''sortSpecs'' of
             Inl e \<Rightarrow> Inl e | Inr v \<Rightarrow> Inr (r\<lparr>sr_sort_specs := v\<rparr>),
      search_highlight_style options,
      \<lambda>r. array_option options ''consistentWith''
             (\<lambda>entries. case read_mutation_tokens [] options (map snd entries) of
                Inl e \<Rightarrow> Inl e
              | Inr vectors \<Rightarrow> Inr (r\<lparr>sr_mutation_state := Some vectors\<rparr>)) r,
      \<lambda>r. array_option options ''raw''
             (\<lambda>entries. case read_string_map Map.empty entries of
                Inl e \<Rightarrow> Inl e
              | Inr params \<Rightarrow> Inr (r\<lparr>sr_raw := Some params\<rparr>)) r,
      \<lambda>r. array_option options ''facets''
             (\<lambda>entries. case read_string_map Map.empty entries of
                Inl e \<Rightarrow> Inl e
              | Inr params \<Rightarrow> Inr (r\<lparr>sr_facets := Some params\<rparr>)) r,
      \<lambda>r. case cb_assign_string Some (sr_client_context_id r) options ''clientContextId'' of
             Inl e \<Rightarrow> Inl e | Inr v \<Rightarrow> Inr (r\<lparr>sr_client_context_id := v\<rparr>)]"

definition search_query ::
  "(search_request \<Rightarrow> 'a search_response_scheme) \<Rightarrow> string \<Rightarrow> string \<Rightarrow> zval option \<Rightarrow>
     failure + 'a search_response_scheme" where
  "search_query execute index_name_s query_s options =
     (case run_steps (search_steps options) (search_request_new index_name_s query_s) of
        Inl e \<Rightarrow> Inl e
      | Inr request \<Rightarrow>
          (case impl_search_query execute request of
             Inl err \<Rightarrow> Inl (failure err)
           | Inr resp \<Rightarrow> Inr resp))"

subsection \<open>View query\<close>

datatype name_space = development | production

datatype view_scan_consistency = view_not_bounded | view_request_plus | view_update_after

datatype sort_order = ascending | descending

record document_view_request = timed_request +
  vr_bucket_name :: string
  vr_document_name :: string
  vr_view_name :: string
  vr_name_space :: name_space
  vr_consistency :: "view_scan_consistency option"
  vr_keys :: "string list option"
  vr_order :: "sort_order option"
  vr_reduce :: "bool option"
  vr_group :: "bool option"
  vr_group_level :: "zend_long option"
  vr_limit :: "zend_long option"
  vr_skip :: "bool option"
  vr_key :: "string option"
  vr_start_key :: "string option"
  vr_end_key :: "string option"
  vr_start_key_doc_id :: "string option"
  vr_end_key_doc_id :: "string option"
  vr_inclusive_end :: "bool option"
  vr_debug :: "bool option"

definition document_view_request_new ::
  "string \<Rightarrow> string \<Rightarrow> string \<Rightarrow> name_space \<Rightarrow> document_view_request" where
  "document_view_request_new bucket_name_s design_document_name_s view_name_s ns =
     \<lparr>timeout = None, vr_bucket_name = bucket_name_s,
      vr_document_name = design_document_name_s, vr_view_name = view_name_s,
      vr_name_space = ns, vr_consistency = None, vr_keys = None, vr_order = None,
      vr_reduce = None, vr_group = None, vr_group_level = None, vr_limit = None,
      vr_skip = None, vr_key = None, vr_start_key = None, vr_end_key = None,
      vr_start_key_doc_id = None, vr_end_key_doc_id = None, vr_inclusive_end = None,
      vr_debug = None\<rparr>"

definition view_scan_consistency_step ::
  "zval option \<Rightarrow> document_view_request \<Rightarrow> failure + document_view_request" where
  "view_scan_consistency_step options request =
     (case cb_get_integer options ''scanConsistency'' of
        Inl e \<Rightarrow> Inl e
      | Inr scan_consistency \<Rightarrow>
          if scan_consistency = 1 then Inr (request\<lparr>vr_consistency := Some view_not_bounded\<rparr>)
          else if scan_consistency = 2
            then Inr (request\<lparr>vr_consistency := Some view_request_plus\<rparr>)
          else if scan_consistency = 3
            then Inr (request\<lparr>vr_consistency := Some view_update_after\<rparr>)
          else if 0 < scan_consistency
            then Inl (validation_error
                   (fmt_format ''invalid value used for scan consistency: {}''
                      [arg_u64 scan_consistency]))
          else Inr request)"

definition view_order_step ::
  "zval option \<Rightarrow> document_view_request \<Rightarrow> failure + document_view_request" where
  "view_order_step options request =
     (case cb_get_integer options ''order'' of
        Inl e \<Rightarrow> Inl e
      | Inr order \<Rightarrow>
          if order = 0 then Inr (request\<lparr>vr_order := Some ascending\<rparr>)
          else if order = 1 then Inr (request\<lparr>vr_order := Some descending\<rparr>)
          else Inl (validation_error
                 (fmt_format ''invalid value used for order: {}'' [arg_u64 order])))"

definition view_steps :: "zval option \<Rightarrow> (document_view_request \<Rightarrow> failure + document_view_request) list" where
  "view_steps options =
     [\<lambda>r. cb_assign_timeout r options,
      view_scan_consistency_step options,
      \<lambda>r. array_option options ''keys''
             (\<lambda>entries. case read_strings [] (map snd entries) of
                Inl e \<Rightarrow> Inl e
              | Inr params \<Rightarrow> Inr (r\<lparr>vr_keys := Some params\<rparr>)) r,
      view_order_step options,
      \<lambda>r. case cb_assign_boolean Some (vr_reduce r) options ''reduce'' of
             Inl e \<Rightarrow> Inl e | Inr v \<Rightarrow> Inr (r\<lparr>vr_reduce := v\<rparr>),
      \<lambda>r. case cb_assign_boolean Some (vr_group r) options ''group'' of
             Inl e \<Rightarrow> Inl e | Inr v \<Rightarrow> Inr (r\<lparr>vr_group := v\<rparr>),
      \<lambda>r. case cb_assign_integer Some (vr_group_level r) options ''groupLevel'' of
             Inl e \<Rightarrow> Inl e | Inr v \<Rightarrow> Inr (r\<lparr>vr_group_level := v\<rparr>),
      \<lambda>r. case cb_assign_integer Some (vr_limit r) options ''limit'' of
             Inl e \<Rightarrow> Inl e | Inr v \<Rightarrow> Inr (r\<lparr>vr_limit := v\<rparr>),
      \<lambda>r. case cb_assign_boolean Some (vr_skip r) options ''skip'' of
             Inl e \<Rightarrow> Inl e | Inr v \<Rightarrow> Inr (r\<lparr>vr_skip := v\<rparr>),
      \<lambda>r. case cb_assign_string Some (vr_key r) options ''key'' of
             Inl e \<Rightarrow> Inl e | Inr v \<Rightarrow> Inr (r\<lparr>vr_key := v\<rparr>),
      \<lambda>r. case cb_assign_string Some (vr_start_key r) options ''startKey'' of
             Inl e \<Rightarrow> Inl e | Inr v \<Rightarrow> Inr (r\<lparr>vr_start_key := v\<rparr>),
      \<lambda>r. case cb_assign_string Some (vr_end_key r) options ''endKey'' of
             Inl e \<Rightarrow> Inl e | Inr v \<Rightarrow> Inr (r\<lparr>vr_end_key := v\<rparr>),
      \<lambda>r. case cb_assign_string Some (vr_start_key_doc_id r) options ''startKeyDocId'' of
             Inl e \<Rightarrow> Inl e | Inr v \<Rightarrow> Inr (r\<lparr>vr_start_key_doc_id := v\<rparr>),
      \<lambda>r. case cb_assign_string Some (vr_end_key_doc_id r) options ''endKeyDocId'' of
             Inl e \<Rightarrow> Inl e | Inr v \<Rightarrow> Inr (r\<lparr>vr_end_key_doc_id := v\<rparr>),
      \<lambda>r. case cb_assign_boolean Some (vr_inclusive_end r) options ''inclusiveEnd'' of
             Inl e \<Rightarrow> Inl e | Inr v \<Rightarrow> Inr (r\<lparr>vr_inclusive_end := v\<rparr>),
      \<lambda>r. case cb_assign_boolean Some (vr_debug r) options ''debug'' of
             Inl e \<Rightarrow> Inl e | Inr v \<Rightarrow> Inr (r\<lparr>vr_debug := v\<rparr>)]"

text \<open>
  \<^verbatim>\<open>connection_handle::view_query\<close> first converts the namespace argument to an
  unsigned 32-bit number and accepts the codes 1 and 2 only.
\<close>

definition view_query ::
  "(document_view_request \<Rightarrow> 'a document_view_response_scheme) \<Rightarrow>
     string \<Rightarrow> string \<Rightarrow> string \<Rightarrow> zend_long \<Rightarrow> zval option \<Rightarrow>
     failure + 'a document_view_response_scheme" where
  "view_query execute bucket_name_s design_document_name_s view_name_s ns options =
     (let name_space_val = (ucast ns :: 32 word)
      in case (if name_space_val = 1 then Inr development
               else if name_space_val = 2 then Inr production
               else Inl (validation_error
                      (fmt_format ''invalid value used for namespace: {}''
                         [arg_u32 name_space_val]))) of
           Inl e \<Rightarrow> Inl e
         | Inr cxx_name_space \<Rightarrow>
        (case run_steps (view_steps options)
                (document_view_request_new bucket_name_s design_document_name_s view_name_s
                   cxx_name_space) of
           Inl e \<Rightarrow> Inl e
         | Inr request \<Rightarrow>
             (case impl_view_query execute request of
                Inl err \<Rightarrow> Inl (failure err)
              | Inr resp \<Rightarrow> Inr resp)))"

subsection \<open>Search index upsert\<close>

record search_index =
  ix_name :: "string option"
  ix_type :: "string option"
  ix_uuid :: "string option"
  ix_params_json :: "string option"
  ix_source_uuid :: "string option"
  ix_source_name :: "string option"
  ix_source_type :: "string option"
  ix_source_params_json :: "string option"

record search_index_upsert_request = timed_request +
  ix_index :: search_index

definition search_index_new :: search_index where
  "search_index_new =
     \<lparr>ix_name = None, ix_type = None, ix_uuid = None, ix_params_json = None,
      ix_source_uuid = None, ix_source_name = None, ix_source_type = None,
      ix_source_params_json = None\<rparr>"

definition search_index_steps :: "zval option \<Rightarrow> (search_index \<Rightarrow> failure + search_index) list" where
  "search_index_steps index =
     [\<lambda>idx. case cb_assign_string Some (ix_name idx) index ''name'' of
               Inl e \<Rightarrow> Inl e | Inr v \<Rightarrow> Inr (idx\<lparr>ix_name := v\<rparr>),
      \<lambda>idx. case cb_assign_string Some (ix_type idx) index ''type'' of
               Inl e \<Rightarrow> Inl e | Inr v \<Rightarrow> Inr (idx\<lparr>ix_type := v\<rparr>),
      \<lambda>idx. case cb_assign_string Some (ix_uuid idx) index ''uuid'' of
               Inl e \<Rightarrow> Inl e | Inr v \<Rightarrow> Inr (idx\<lparr>ix_uuid := v\<rparr>),
      \<lambda>idx. case cb_assign_string Some (ix_params_json idx) index ''params'' of
               Inl e \<Rightarrow> Inl e | Inr v \<Rightarrow> Inr (idx\<lparr>ix_params_json := v\<rparr>),
      \<lambda>idx. case cb_assign_string Some (ix_source_uuid idx) index ''sourceUuid'' of
               Inl e \<Rightarrow> Inl e | Inr v \<Rightarrow> Inr (idx\<lparr>ix_source_uuid := v\<rparr>),
      \<lambda>idx. case cb_assign_string Some (ix_source_name idx) index ''sourceName'' of
               Inl e \<Rightarrow> Inl e | Inr v \<Rightarrow> Inr (idx\<lparr>ix_source_name := v\<rparr>),
      \<lambda>idx. case cb_assign_string Some (ix_source_type idx) index ''sourceType'' of
               Inl e \<Rightarrow> Inl e | Inr v \<Rightarrow> Inr (idx\<lparr>ix_source_type := v\<rparr>),
      \<lambda>idx. case cb_assign_string Some (ix_source_params_json idx) index ''sourceParams'' of
               Inl e \<Rightarrow> Inl e | Inr v \<Rightarrow> Inr (idx\<lparr>ix_source_params_json := v\<rparr>)]"

definition search_index_upsert ::
  "(search_index_upsert_request \<Rightarrow> search_index_upsert_response) \<Rightarrow>
     zval option \<Rightarrow> zval option \<Rightarrow> failure + (zkey \<times> zval) list" where
  "search_index_upsert execute index options =
     (case run_steps (search_index_steps index) search_index_new of
        Inl e \<Rightarrow> Inl e
      | Inr idx \<Rightarrow>
     (case cb_assign_timeout \<lparr>timeout = None, ix_index = idx\<rparr> options of
        Inl e \<Rightarrow> Inl e
      | Inr request \<Rightarrow>
     (case impl_search_index_upsert execute request of
        Inl err \<Rightarrow> Inl (failure err)
      | Inr resp \<Rightarrow>
          (let retval = [];
               retval = add_assoc retval ''status'' (IS_STRING (c_str (index_status resp)));
               retval = add_assoc retval ''error'' (IS_STRING (c_str (index_error resp)))
           in Inr retval))))"

section \<open>Connection lifecycle\<close>

subsection \<open>Opening the cluster and its buckets\<close>

text \<open>
  The calls of the engine that change the connection take the state of the engine and
  return the next one: \<open>open_bucket name s\<close> is the error code the completion of
  \<^verbatim>\<open>cluster_->open_bucket\<close> delivers, with the state after it. An error comes back
  as an error info with the code and an empty message.
\<close>

definition impl_open :: "('s \<Rightarrow> error_code \<times> 's) \<Rightarrow> 's \<Rightarrow> core_error_info \<times> 's" where
  "impl_open cluster_open s =
     (case cluster_open s of
        (code, s') \<Rightarrow>
          if code \<noteq> no_error
          then (\<lparr>ec = code, message = text_message [], ctx = no_error_context\<rparr>, s')
          else (no_error_info, s'))"

definition impl_bucket_open ::
  "(string \<Rightarrow> 's \<Rightarrow> error_code \<times> 's) \<Rightarrow> string \<Rightarrow> 's \<Rightarrow> core_error_info \<times> 's" where
  "impl_bucket_open open_bucket name s =
     (case open_bucket name s of
        (code, s') \<Rightarrow>
          if code \<noteq> no_error
          then (\<lparr>ec = code, message = text_message [], ctx = no_error_context\<rparr>, s')
          else (no_error_info, s'))"

definition impl_bucket_close ::
  "(string \<Rightarrow> 's \<Rightarrow> error_code \<times> 's) \<Rightarrow> string \<Rightarrow> 's \<Rightarrow> core_error_info \<times> 's" where
  "impl_bucket_close close_bucket name s =
     (case close_bucket name s of
        (code, s') \<Rightarrow>
          if code \<noteq> no_error
          then (\<lparr>ec = code, message = text_message [], ctx = no_error_context\<rparr>, s')
          else (no_error_info, s'))"

subsection \<open>The cluster version probe\<close>

record cluster_node =
  version :: string

record cluster_describe_response =
  describe_ec :: error_code
  describe_nodes :: "cluster_node list"

text \<open>
  \<^verbatim>\<open>impl::cluster_version\<close>. \<open>describe s\<close> is the response the engine completes a
  \<^verbatim>\<open>cluster_describe_request\<close> with in state \<open>s\<close>. The recursive call passes no
  argument, so it runs with the default bucket name, the empty string.
\<close>

function impl_cluster_version ::
  "('s \<Rightarrow> cluster_describe_response \<times> 's) \<Rightarrow> (string \<Rightarrow> 's \<Rightarrow> error_code \<times> 's) \<Rightarrow>
     string \<Rightarrow> 's \<Rightarrow> string \<times> 's" where
  "impl_cluster_version describe open_bucket bucket_name_s s =
     (case describe s of
        (resp, s1) \<Rightarrow>
          if describe_ec resp = service_not_available \<and> bucket_name_s \<noteq> [] then
            (case impl_bucket_open open_bucket bucket_name_s s1 of
               (e, s2) \<Rightarrow>
                 if ec e \<noteq> no_error then ([], s2)
                 else impl_cluster_version describe open_bucket [] s2)
          else if describe_ec resp \<noteq> no_error \<or> describe_nodes resp = [] then ([], s1)
          else (version (hd (describe_nodes resp)), s1))"
  by pat_completeness auto
termination
  by (relation "measure (\<lambda>(describe, open_bucket, bucket_name_s, s). length bucket_name_s)") auto

subsection \<open>Teardown\<close>






datatype 'a run = returned 'a | blocked


section \<open>Cluster options\<close>

text \<open>
  \<^verbatim>\<open>connstr.options\<close>, the tuning options of a connection string, with the fields
  \<^verbatim>\<open>apply_options\<close> assigns. A field holding \<open>None\<close> has not been assigned.
\<close>

datatype tls_verify_mode = tls_verify_peer | tls_verify_none

record tracing_options =
  orphaned_sample_size :: "zend_long option"
  orphaned_emit_interval :: "zend_long option"
  threshold_sample_size :: "zend_long option"
  threshold_emit_interval :: "zend_long option"
  analytics_threshold :: "zend_long option"
  eventing_threshold :: "zend_long option"
  key_value_threshold :: "zend_long option"
  management_threshold :: "zend_long option"
  query_threshold :: "zend_long option"
  search_threshold :: "zend_long option"
  view_threshold :: "zend_long option"

record metrics_options =
  emit_interval :: "zend_long option"

record cluster_options =
  analytics_timeout :: "zend_long option"
  bootstrap_timeout :: "zend_long option"
  connect_timeout :: "zend_long option"
  dns_srv_timeout :: "zend_long option"
  key_value_durable_timeout :: "zend_long option"
  key_value_timeout :: "zend_long option"
  management_timeout :: "zend_long option"
  query_timeout :: "zend_long option"
  resolve_timeout :: "zend_long option"
  search_timeout :: "zend_long option"
  view_timeout :: "zend_long option"
  max_http_connections :: "zend_long option"
  config_idle_redial_timeout :: "zend_long option"
  config_poll_floor :: "zend_long option"
  config_poll_interval :: "zend_long option"
  idle_http_connection_timeout :: "zend_long option"
  tcp_keep_alive_interval :: "zend_long option"
  enable_clustermap_notification :: "bool option"
  enable_compression :: "bool option"
  enable_dns_srv :: "bool option"
  enable_metrics :: "bool option"
  enable_mutation_tokens :: "bool option"
  enable_tcp_keep_alive :: "bool option"
  enable_tls :: "bool option"
  enable_tracing :: "bool option"
  enable_unordered_execution :: "bool option"
  force_ipv4 :: "bool option"
  show_queries :: "bool option"
  network :: "string option"
  trust_certificate :: "string option"
  user_agent_extra :: "string option"
  tls_verify :: "tls_verify_mode option"
  tracing_options :: "tracing_options"
  metrics_options :: "metrics_options"

definition tracing_options_new :: tracing_options where
  "tracing_options_new =
     \<lparr>orphaned_sample_size = None, orphaned_emit_interval = None,
      threshold_sample_size = None, threshold_emit_interval = None,
      analytics_threshold = None, eventing_threshold = None,
      key_value_threshold = None, management_threshold = None,
      query_threshold = None, search_threshold = None, view_threshold = None\<rparr>"

definition metrics_options_new :: metrics_options where
  "metrics_options_new = \<lparr>emit_interval = None\<rparr>"

definition cluster_options_new :: cluster_options where
  "cluster_options_new =
     \<lparr>analytics_timeout = None, bootstrap_timeout = None, connect_timeout = None,
      dns_srv_timeout = None, key_value_durable_timeout = None,
      key_value_timeout = None, management_timeout = None, query_timeout = None,
      resolve_timeout = None, search_timeout = None, view_timeout = None,
      max_http_connections = None, config_idle_redial_timeout = None,
      config_poll_floor = None, config_poll_interval = None,
      idle_http_connection_timeout = None, tcp_keep_alive_interval = None,
      enable_clustermap_notification = None, enable_compression = None,
      enable_dns_srv = None, enable_metrics = None, enable_mutation_tokens = None,
      enable_tcp_keep_alive = None, enable_tls = None, enable_tracing = None,
      enable_unordered_execution = None, force_ipv4 = None, show_queries = None,
      network = None, trust_certificate = None, user_agent_extra = None,
      tls_verify = None, tracing_options = tracing_options_new,
      metrics_options = metrics_options_new\<rparr>"

text \<open>
  One statement of the loop body either goes on to the next statement
  (\<open>proceed\<close>), ends the iteration (\<^verbatim>\<open>continue\<close>) or ends the call with an error
  (\<^verbatim>\<open>return\<close>); the options assigned so far travel along.
\<close>

datatype 'o flow = proceed 'o | continue 'o | return failure

fun run_statements :: "('o \<Rightarrow> 'o flow) list \<Rightarrow> 'o \<Rightarrow> 'o flow" where
  "run_statements [] opts = proceed opts"
| "run_statements (stmt # stmts) opts =
     (case stmt opts of
        proceed opts' \<Rightarrow> run_statements stmts opts'
      | continue opts' \<Rightarrow> continue opts'
      | return e \<Rightarrow> return e)"

text \<open>
  The four macros. Each compares the key of the entry with its name and does nothing
  for another key. \<open>assign\<close> stores into the field the macro names. The value of an
  entry is never the null pointer.
\<close>

definition ASSIGN_DURATION_OPTION ::
  "string \<Rightarrow> (zend_long option \<Rightarrow> 'o \<Rightarrow> 'o) \<Rightarrow> string \<Rightarrow> zval \<Rightarrow> 'o \<Rightarrow> 'o flow" where
  "ASSIGN_DURATION_OPTION name assign key value opts =
     (if key = name then
        (case value of
           IS_NULL \<Rightarrow> continue opts
         | IS_LONG ms \<Rightarrow>
             if ms <s 0
             then return (validation_error
                    (fmt_format ''expected duration as a positive number for {}'' [arg_str key]))
             else proceed (assign (Some ms) opts)
         | _ \<Rightarrow>
             return (validation_error
               (fmt_format ''expected duration as a number for {}'' [arg_str key])))
      else proceed opts)"

definition ASSIGN_NUMBER_OPTION ::
  "string \<Rightarrow> (zend_long option \<Rightarrow> 'o \<Rightarrow> 'o) \<Rightarrow> string \<Rightarrow> zval \<Rightarrow> 'o \<Rightarrow> 'o flow" where
  "ASSIGN_NUMBER_OPTION name assign key value opts =
     (if key = name then
        (case value of
           IS_NULL \<Rightarrow> continue opts
         | IS_LONG n \<Rightarrow> proceed (assign (Some n) opts)
         | _ \<Rightarrow>
             return (validation_error (fmt_format ''expected number for {}'' [arg_str key])))
      else proceed opts)"

definition ASSIGN_BOOLEAN_OPTION ::
  "string \<Rightarrow> (bool option \<Rightarrow> 'o \<Rightarrow> 'o) \<Rightarrow> string \<Rightarrow> zval \<Rightarrow> 'o \<Rightarrow> 'o flow" where
  "ASSIGN_BOOLEAN_OPTION name assign key value opts =
     (if key = name then
        (case value of
           IS_NULL \<Rightarrow> continue opts
         | IS_TRUE \<Rightarrow> proceed (assign (Some True) opts)
         | IS_FALSE \<Rightarrow> proceed (assign (Some False) opts)
         | _ \<Rightarrow>
             return (validation_error (fmt_format ''expected boolean for {}'' [arg_str key])))
      else proceed opts)"

definition ASSIGN_STRING_OPTION ::
  "string \<Rightarrow> (string option \<Rightarrow> 'o \<Rightarrow> 'o) \<Rightarrow> string \<Rightarrow> zval \<Rightarrow> 'o \<Rightarrow> 'o flow" where
  "ASSIGN_STRING_OPTION name assign key value opts =
     (if key = name then
        (case value of
           IS_NULL \<Rightarrow> continue opts
         | IS_STRING s \<Rightarrow>
             if s = []
             then return (validation_error
                    (fmt_format ''expected non-empty string for {}'' [arg_str key]))
             else proceed (assign (Some s) opts)
         | _ \<Rightarrow>
             return (validation_error (fmt_format ''expected string for {}'' [arg_str key])))
      else proceed opts)"

text \<open>
  \<^verbatim>\<open>ZEND_HASH_FOREACH_STR_KEY_VAL\<close> with a body made of such statements. For an
  entry under an integer key the key pointer is null, and the first statement
  dereferences it.
\<close>

fun foreach_str_key_val ::
  "(string \<Rightarrow> zval \<Rightarrow> ('o \<Rightarrow> 'o flow) list) \<Rightarrow> (zkey \<times> zval) list \<Rightarrow> 'o \<Rightarrow> failure + 'o" where
  "foreach_str_key_val body [] opts = Inr opts"
| "foreach_str_key_val body ((num_key n, value) # entries) opts = Inl undefined_behaviour"
| "foreach_str_key_val body ((str_key key, value) # entries) opts =
     (case run_statements (body key value) opts of
        proceed opts' \<Rightarrow> foreach_str_key_val body entries opts'
      | continue opts' \<Rightarrow> foreach_str_key_val body entries opts'
      | return e \<Rightarrow> Inl e)"

definition tracer_statements :: "string \<Rightarrow> zval \<Rightarrow> (tracing_options \<Rightarrow> tracing_options flow) list" where
  "tracer_statements k v =
     [ASSIGN_NUMBER_OPTION ''orphanedSampleSize'' (\<lambda>x opts. opts\<lparr>orphaned_sample_size := x\<rparr>) k v,
      ASSIGN_DURATION_OPTION ''orphanedEmitInterval'' (\<lambda>x opts. opts\<lparr>orphaned_emit_interval := x\<rparr>) k v,
      ASSIGN_NUMBER_OPTION ''thresholdSampleSize'' (\<lambda>x opts. opts\<lparr>threshold_sample_size := x\<rparr>) k v,
      ASSIGN_DURATION_OPTION ''thresholdEmitInterval'' (\<lambda>x opts. opts\<lparr>threshold_emit_interval := x\<rparr>) k v,
      ASSIGN_DURATION_OPTION ''analyticsThreshold'' (\<lambda>x opts. opts\<lparr>analytics_threshold := x\<rparr>) k v,
      ASSIGN_DURATION_OPTION ''eventingThreshold'' (\<lambda>x opts. opts\<lparr>eventing_threshold := x\<rparr>) k v,
      ASSIGN_DURATION_OPTION ''keyValueThreshold'' (\<lambda>x opts. opts\<lparr>key_value_threshold := x\<rparr>) k v,
      ASSIGN_DURATION_OPTION ''managementThreshold'' (\<lambda>x opts. opts\<lparr>management_threshold := x\<rparr>) k v,
      ASSIGN_DURATION_OPTION ''queryThreshold'' (\<lambda>x opts. opts\<lparr>query_threshold := x\<rparr>) k v,
      ASSIGN_DURATION_OPTION ''searchThreshold'' (\<lambda>x opts. opts\<lparr>search_threshold := x\<rparr>) k v,
      ASSIGN_DURATION_OPTION ''viewThreshold'' (\<lambda>x opts. opts\<lparr>view_threshold := x\<rparr>) k v]"

definition meter_statements :: "string \<Rightarrow> zval \<Rightarrow> (metrics_options \<Rightarrow> metrics_options flow) list" where
  "meter_statements k v =
     [ASSIGN_DURATION_OPTION ''emitInterval'' (\<lambda>x opts. opts\<lparr>emit_interval := x\<rparr>) k v]"

definition tls_verify_statement :: "string \<Rightarrow> zval \<Rightarrow> cluster_options \<Rightarrow> cluster_options flow" where
  "tls_verify_statement key value opts =
     (if key = ''tlsVerify'' then
        (case value of
           IS_NULL \<Rightarrow> continue opts
         | IS_STRING s \<Rightarrow>
             if s = ''peer'' then proceed (opts\<lparr>tls_verify := Some tls_verify_peer\<rparr>)
             else if s = ''none'' then proceed (opts\<lparr>tls_verify := Some tls_verify_none\<rparr>)
             else return (validation_error
                    (fmt_format
                       ''expected mode for TLS verification ({}), supported modes are \"peer\" and \"none\"''
                       [arg_str key]))
         | _ \<Rightarrow>
             return (validation_error (fmt_format ''expected string for {}'' [arg_str key])))
      else proceed opts)"

definition tracer_options_statement ::
  "string \<Rightarrow> zval \<Rightarrow> cluster_options \<Rightarrow> cluster_options flow" where
  "tracer_options_statement key value opts =
     (if key = ''thresholdLoggingTracerOptions'' then
        (case value of
           IS_NULL \<Rightarrow> continue opts
         | IS_ARRAY entries \<Rightarrow>
             (case foreach_str_key_val tracer_statements entries (tracing_options opts) of
                Inl e \<Rightarrow> return e
              | Inr t \<Rightarrow> proceed (opts\<lparr>tracing_options := t\<rparr>))
         | _ \<Rightarrow>
             return (validation_error
               (fmt_format ''expected array for {} as tracer options'' [arg_str key])))
      else proceed opts)"

definition meter_options_statement ::
  "string \<Rightarrow> zval \<Rightarrow> cluster_options \<Rightarrow> cluster_options flow" where
  "meter_options_statement key value opts =
     (if key = ''loggingMeterOptions'' then
        (case value of
           IS_NULL \<Rightarrow> continue opts
         | IS_ARRAY entries \<Rightarrow>
             (case foreach_str_key_val meter_statements entries (metrics_options opts) of
                Inl e \<Rightarrow> return e
              | Inr m \<Rightarrow> proceed (opts\<lparr>metrics_options := m\<rparr>))
         | _ \<Rightarrow>
             return (validation_error
               (fmt_format ''expected array for {} as meter options'' [arg_str key])))
      else proceed opts)"

definition cluster_statements ::
  "string \<Rightarrow> zval \<Rightarrow> (cluster_options \<Rightarrow> cluster_options flow) list" where
  "cluster_statements key value =
     [ASSIGN_DURATION_OPTION ''analyticsTimeout'' (\<lambda>x opts. opts\<lparr>analytics_timeout := x\<rparr>) key value,
      ASSIGN_DURATION_OPTION ''bootstrapTimeout'' (\<lambda>x opts. opts\<lparr>bootstrap_timeout := x\<rparr>) key value,
      ASSIGN_DURATION_OPTION ''connectTimeout'' (\<lambda>x opts. opts\<lparr>connect_timeout := x\<rparr>) key value,
      ASSIGN_DURATION_OPTION ''dnsSrvTimeout'' (\<lambda>x opts. opts\<lparr>dns_srv_timeout := x\<rparr>) key value,
      ASSIGN_DURATION_OPTION ''keyValueDurableTimeout'' (\<lambda>x opts. opts\<lparr>key_value_durable_timeout := x\<rparr>) key value,
      ASSIGN_DURATION_OPTION ''keyValueTimeout'' (\<lambda>x opts. opts\<lparr>key_value_timeout := x\<rparr>) key value,
      ASSIGN_DURATION_OPTION ''managementTimeout'' (\<lambda>x opts. opts\<lparr>management_timeout := x\<rparr>) key value,
      ASSIGN_DURATION_OPTION ''queryTimeout'' (\<lambda>x opts. opts\<lparr>query_timeout := x\<rparr>) key value,
      ASSIGN_DURATION_OPTION ''resolveTimeout'' (\<lambda>x opts. opts\<lparr>resolve_timeout := x\<rparr>) key value,
      ASSIGN_DURATION_OPTION ''searchTimeout'' (\<lambda>x opts. opts\<lparr>search_timeout := x\<rparr>) key value,
      ASSIGN_DURATION_OPTION ''viewTimeout'' (\<lambda>x opts. opts\<lparr>view_timeout := x\<rparr>) key value,
      ASSIGN_NUMBER_OPTION ''maxHttpConnections'' (\<lambda>x opts. opts\<lparr>max_http_connections := x\<rparr>) key value,
      ASSIGN_DURATION_OPTION ''configIdleRedialTimeout'' (\<lambda>x opts. opts\<lparr>config_idle_redial_timeout := x\<rparr>) key value,
      ASSIGN_DURATION_OPTION ''configPollFloor'' (\<lambda>x opts. opts\<lparr>config_poll_floor := x\<rparr>) key value,
      ASSIGN_DURATION_OPTION ''configPollInterval'' (\<lambda>x opts. opts\<lparr>config_poll_interval := x\<rparr>) key value,
      ASSIGN_DURATION_OPTION ''idleHttpConnectionTimeout'' (\<lambda>x opts. opts\<lparr>idle_http_connection_timeout := x\<rparr>) key value,
      ASSIGN_DURATION_OPTION ''tcpKeepAliveInterval'' (\<lambda>x opts. opts\<lparr>tcp_keep_alive_interval := x\<rparr>) key value,
      ASSIGN_BOOLEAN_OPTION ''enableClustermapNotification'' (\<lambda>x opts. opts\<lparr>enable_clustermap_notification := x\<rparr>) key value,
      ASSIGN_BOOLEAN_OPTION ''enableCompression'' (\<lambda>x opts. opts\<lparr>enable_compression := x\<rparr>) key value,
      ASSIGN_BOOLEAN_OPTION ''enableDnsSrv'' (\<lambda>x opts. opts\<lparr>enable_dns_srv := x\<rparr>) key value,
      ASSIGN_BOOLEAN_OPTION ''enableMetrics'' (\<lambda>x opts. opts\<lparr>enable_metrics := x\<rparr>) key value,
      ASSIGN_BOOLEAN_OPTION ''enableMutationTokens'' (\<lambda>x opts. opts\<lparr>enable_mutation_tokens := x\<rparr>) key value,
      ASSIGN_BOOLEAN_OPTION ''enableTcpKeepAlive'' (\<lambda>x opts. opts\<lparr>enable_tcp_keep_alive := x\<rparr>) key value,
      ASSIGN_BOOLEAN_OPTION ''enableTls'' (\<lambda>x opts. opts\<lparr>enable_tls := x\<rparr>) key value,
      ASSIGN_BOOLEAN_OPTION ''enableTracing'' (\<lambda>x opts. opts\<lparr>enable_tracing := x\<rparr>) key value,
      ASSIGN_BOOLEAN_OPTION ''enableUnorderedExecution'' (\<lambda>x opts. opts\<lparr>enable_unordered_execution := x\<rparr>) key value,
      ASSIGN_BOOLEAN_OPTION ''forceIpv4'' (\<lambda>x opts. opts\<lparr>force_ipv4 := x\<rparr>) key value,
      ASSIGN_BOOLEAN_OPTION ''showQueries'' (\<lambda>x opts. opts\<lparr>show_queries := x\<rparr>) key value,
      ASSIGN_STRING_OPTION ''network'' (\<lambda>x opts. opts\<lparr>network := x\<rparr>) key value,
      ASSIGN_STRING_OPTION ''trustCertificate'' (\<lambda>x opts. opts\<lparr>trust_certificate := x\<rparr>) key value,
      ASSIGN_STRING_OPTION ''userAgentExtra'' (\<lambda>x opts. opts\<lparr>user_agent_extra := x\<rparr>) key value,
      tls_verify_statement key value,
      tracer_options_statement key value,
      meter_options_statement key value]"

text \<open>
  \<^verbatim>\<open>apply_options\<close>: the options argument must be an array; a null pointer and a
  value of any other tag, the null value among them, are rejected before the loop.
\<close>

fun apply_options :: "cluster_options \<Rightarrow> zval option \<Rightarrow> failure + cluster_options" where
  "apply_options connstr_options (Some (IS_ARRAY ht)) =
     foreach_str_key_val cluster_statements ht connstr_options"
| "apply_options connstr_options _ =
     Inl (validation_error (text_message ''expected array for cluster options''))"

section \<open>Example inputs\<close>

text \<open>
  A raw key-value context with both an error map entry and enhanced error info, as a
  server with an error map answers a failed request.
\<close>

definition example_raw_context :: raw_key_value where
  "example_raw_context =
     \<lparr>kv_ec = engine_errc 105,
      kv_id = \<lparr>doc_bucket = ''travel'', doc_scope = ''_default'',
               doc_collection = ''_default'', doc_key = ''airline_10''\<rparr>,
      kv_opaque = 7,
      kv_cas = 0,
      kv_status_code = Some 2,
      kv_error_map_info = Some \<lparr>em_name = ''KEY_EEXISTS'', em_description = ''key exists''\<rparr>,
      kv_enhanced_error_info =
        Some \<lparr>ee_reference = ''ref-42'', ee_context = ''cas mismatch on vb 17''\<rparr>,
      kv_last_dispatched_to = Some ''10.0.0.2:11210'',
      kv_last_dispatched_from = Some ''10.0.0.9:51512'',
      kv_retry_attempts = 1,
      kv_retry_reasons = {kv_locked}\<rparr>"

text \<open>A context of a call that succeeded, and an upsert response around it.\<close>

definition success_raw_context :: raw_key_value where
  "success_raw_context =
     \<lparr>kv_ec = no_error,
      kv_id = \<lparr>doc_bucket = ''travel'', doc_scope = ''_default'',
               doc_collection = ''_default'', doc_key = ''airline_10''\<rparr>,
      kv_opaque = 8,
      kv_cas = 255,
      kv_status_code = Some 0,
      kv_error_map_info = None,
      kv_enhanced_error_info = None,
      kv_last_dispatched_to = None,
      kv_last_dispatched_from = None,
      kv_retry_attempts = 0,
      kv_retry_reasons = {}\<rparr>"

definition example_upsert_response :: "mutation_token \<Rightarrow> upsert_response" where
  "example_upsert_response token = \<lparr>kv_ctx = success_raw_context, up_cas = 255, up_token = token\<rparr>"

text \<open>
  A query option bag whose \<open>consistentWith\<close> holds two mutation-token records with
  different contents, and nothing else.
\<close>

definition example_consistent_with :: "zval option" where
  "example_consistent_with =
     Some (IS_ARRAY
       [(str_key ''consistentWith'',
         IS_ARRAY
           [(num_key 0,
             IS_ARRAY [(str_key ''bucketName'', IS_STRING ''travel''),
                       (str_key ''partitionId'', IS_LONG 1),
                       (str_key ''partitionUuid'', IS_LONG 100),
                       (str_key ''sequenceNumber'', IS_LONG 7)]),
            (num_key 1,
             IS_ARRAY [(str_key ''bucketName'', IS_STRING ''beer''),
                       (str_key ''partitionId'', IS_LONG 2),
                       (str_key ''partitionUuid'', IS_LONG 200),
                       (str_key ''sequenceNumber'', IS_LONG 9)])])])"

text \<open>
  Two engines that record the calls they receive. Both answer a cluster description
  with "service not available" until the bucket \<open>travel\<close> has been opened, and with one
  node of version 7.0.2 afterwards; the first opens any bucket, the second fails to.
\<close>

datatype engine_call = describe_call | open_bucket_call string

definition recording_describe ::
  "engine_call list \<Rightarrow> cluster_describe_response \<times> engine_call list" where
  "recording_describe calls =
     (if open_bucket_call ''travel'' \<in> set calls
      then \<lparr>describe_ec = no_error, describe_nodes = [\<lparr>version = ''7.0.2''\<rparr>]\<rparr>
      else \<lparr>describe_ec = service_not_available, describe_nodes = []\<rparr>,
      calls @ [describe_call])"

definition recording_open_bucket ::
  "string \<Rightarrow> engine_call list \<Rightarrow> error_code \<times> engine_call list" where
  "recording_open_bucket name calls = (no_error, calls @ [open_bucket_call name])"

definition recording_open_bucket_failing ::
  "string \<Rightarrow> engine_call list \<Rightarrow> error_code \<times> engine_call list" where
  "recording_open_bucket_failing name calls = (engine_errc 10, calls @ [open_bucket_call name])"

text \<open>
  An exists response for a document that is not there: the status is
  \<^verbatim>\<open>document_not_found\<close>, and the server has sent enhanced error info while the
  engine found no error map entry for the status.
\<close>

definition not_found_raw_context :: raw_key_value where
  "not_found_raw_context =
     success_raw_context
       \<lparr>kv_ec := document_not_found,
        kv_cas := 0,
        kv_status_code := Some 1,
        kv_enhanced_error_info :=
          Some \<lparr>ee_reference = ''ref-7'', ee_context = ''no such document''\<rparr>\<rparr>"

definition example_exists_response :: "raw_key_value \<Rightarrow> exists_response" where
  "example_exists_response c =
     \<lparr>kv_ctx = c, ex_deleted = False, ex_cas = 0, ex_flags = 0, ex_datatype = 0,
      ex_expiry = 0, ex_sequence_number = 0\<rparr>"

section \<open>Properties of the error context builder\<close>

text \<open>
  Claim C1, as the code has it at a concrete response. The raw context
  \<open>example_raw_context\<close> carries the enhanced error info with reference \<open>ref-42\<close> and
  context \<open>cas mismatch on vb 17\<close>, next to an error map entry described as
  \<open>key exists\<close>. \<^verbatim>\<open>build_error_context\<close> copies the reference, but the
  \<open>enhanced_error_context\<close> of its output is the description of the error map entry,
  not the context of the enhanced error info.
\<close>

theorem build_error_context_enhanced_context_from_error_map:
  "map_sum id (\<lambda>out. (enhanced_error_reference out, enhanced_error_context out))
     (build_error_context example_raw_context)
   = Inr (Some ''ref-42'', Some ''key exists'')"
  unfolding build_error_context_def example_raw_context_def key_value_error_context_new_def
  by (simp add: Let_def)

section \<open>Properties of the option decoder\<close>

text \<open>
  Claim C5. When \<open>durabilityLevel\<close> holds one of the three literals of a level other
  than "none" and \<open>durabilityTimeoutSeconds\<close> holds an integer, decoding stores that
  level and sets the durability timeout to the integer. When \<open>durabilityLevel\<close> holds
  the literal "none", decoding only stores the level; when it is absent or null, the
  request comes back as it was. In the last two cases the bag is arbitrary otherwise:
  whatever \<open>durabilityTimeoutSeconds\<close> holds, it is not looked up, so it neither
  assigns a field nor raises a validation error.
\<close>

theorem cb_assign_durability_timeout_gated:
  fixes req :: "'a durable_request_scheme"
  shows
  "(zend_symtable_str_find ht ''durabilityLevel'' = Some (IS_STRING s) \<and>
    (s, lvl) \<in> {(''majority'', majority),
                (''majorityAndPersistToActive'', majority_and_persist_to_active),
                (''persistToMajority'', persist_to_majority)} \<and>
    zend_symtable_str_find ht ''durabilityTimeoutSeconds'' = Some (IS_LONG t)
    \<longrightarrow> cb_assign_durability req (Some (IS_ARRAY ht))
        = Inr (req\<lparr>durability_level := Some lvl, durability_timeout := Some t\<rparr>))
   \<and> (zend_symtable_str_find ht ''durabilityLevel'' = Some (IS_STRING ''none'')
    \<longrightarrow> cb_assign_durability req (Some (IS_ARRAY ht))
        = Inr (req\<lparr>durability_level := Some durability_none\<rparr>))
   \<and> (zend_symtable_str_find ht ''durabilityLevel'' \<in> {None, Some IS_NULL}
    \<longrightarrow> cb_assign_durability req (Some (IS_ARRAY ht)) = Inr req)"
proof (intro conjI impI)
  assume a: "zend_symtable_str_find ht ''durabilityLevel'' = Some (IS_STRING s) \<and>
    (s, lvl) \<in> {(''majority'', majority),
                (''majorityAndPersistToActive'', majority_and_persist_to_active),
                (''persistToMajority'', persist_to_majority)} \<and>
    zend_symtable_str_find ht ''durabilityTimeoutSeconds'' = Some (IS_LONG t)"
  then consider "s = ''majority'' \<and> lvl = majority"
    | "s = ''majorityAndPersistToActive'' \<and> lvl = majority_and_persist_to_active"
    | "s = ''persistToMajority'' \<and> lvl = persist_to_majority"
    by auto
  then show "cb_assign_durability req (Some (IS_ARRAY ht))
        = Inr (req\<lparr>durability_level := Some lvl, durability_timeout := Some t\<rparr>)"
    using a by cases simp_all
next
  assume "zend_symtable_str_find ht ''durabilityLevel'' = Some (IS_STRING ''none'')"
  then show "cb_assign_durability req (Some (IS_ARRAY ht))
        = Inr (req\<lparr>durability_level := Some durability_none\<rparr>)"
    by simp
next
  assume "zend_symtable_str_find ht ''durabilityLevel'' \<in> {None, Some IS_NULL}"
  then have "zend_symtable_str_find ht ''durabilityLevel'' = None
      \<or> zend_symtable_str_find ht ''durabilityLevel'' = Some IS_NULL"
    by simp
  then show "cb_assign_durability req (Some (IS_ARRAY ht)) = Inr req"
    by (elim disjE) simp_all
qed

text \<open>
  The three cases at concrete bags: level "majority" with a timeout of 5 seconds; level
  "none" next to a timeout that is a string; no level next to a timeout that is a string.
\<close>

theorem cb_assign_durability_timeout_gated_witness:
  "cb_assign_durability \<lparr>timeout = None, durability_level = None, durability_timeout = None\<rparr>
     (Some (IS_ARRAY [(str_key ''durabilityLevel'', IS_STRING ''majority''),
                      (str_key ''durabilityTimeoutSeconds'', IS_LONG 5)]))
   = Inr \<lparr>timeout = None, durability_level = Some majority, durability_timeout = Some 5\<rparr>
   \<and> cb_assign_durability \<lparr>timeout = None, durability_level = None, durability_timeout = None\<rparr>
     (Some (IS_ARRAY [(str_key ''durabilityLevel'', IS_STRING ''none''),
                      (str_key ''durabilityTimeoutSeconds'', IS_STRING ''soon'')]))
   = Inr \<lparr>timeout = None, durability_level = Some durability_none, durability_timeout = None\<rparr>
   \<and> cb_assign_durability \<lparr>timeout = None, durability_level = None, durability_timeout = None\<rparr>
     (Some (IS_ARRAY [(str_key ''durabilityTimeoutSeconds'', IS_STRING ''soon'')]))
   = Inr \<lparr>timeout = None, durability_level = None, durability_timeout = None\<rparr>"
proof -
  let ?req = "\<lparr>timeout = None, durability_level = None, durability_timeout = None\<rparr>"
  let ?a = "[(str_key ''durabilityLevel'', IS_STRING ''majority''),
             (str_key ''durabilityTimeoutSeconds'', IS_LONG 5)]"
  let ?b = "[(str_key ''durabilityLevel'', IS_STRING ''none''),
             (str_key ''durabilityTimeoutSeconds'', IS_STRING ''soon'')]"
  let ?c = "[(str_key ''durabilityTimeoutSeconds'', IS_STRING ''soon'')]"
  have "cb_assign_durability ?req (Some (IS_ARRAY ?a))
      = Inr (?req\<lparr>durability_level := Some majority, durability_timeout := Some 5\<rparr>)"
    using cb_assign_durability_timeout_gated [of ?a "''majority''" majority 5 ?req]
    by (simp add: zend_symtable_str_find_def)
  moreover have "cb_assign_durability ?req (Some (IS_ARRAY ?b))
      = Inr (?req\<lparr>durability_level := Some durability_none\<rparr>)"
    using cb_assign_durability_timeout_gated [of ?b _ _ _ ?req]
    by (simp add: zend_symtable_str_find_def)
  moreover have "cb_assign_durability ?req (Some (IS_ARRAY ?c)) = Inr ?req"
    using cb_assign_durability_timeout_gated [of ?c _ _ _ ?req]
    by (simp add: zend_symtable_str_find_def)
  ultimately show ?thesis by simp
qed

subsection \<open>Lookups in a bag without one key\<close>

lemma find_without_key:
  "zend_symtable_str_find (filter (\<lambda>e. fst e \<noteq> str_key k) ht) n
     = (if k = n then None else zend_symtable_str_find ht n)"
  unfolding zend_symtable_str_find_def
  by (induction ht) auto

lemma cb_assign_integer_without_key:
  "k \<noteq> n \<Longrightarrow>
   cb_assign_integer conv field (Some (IS_ARRAY (filter (\<lambda>e. fst e \<noteq> str_key k) ht))) n
     = cb_assign_integer conv field (Some (IS_ARRAY ht)) n"
  by (simp add: find_without_key)

lemma cb_assign_string_without_key:
  "k \<noteq> n \<Longrightarrow>
   cb_assign_string conv field (Some (IS_ARRAY (filter (\<lambda>e. fst e \<noteq> str_key k) ht))) n
     = cb_assign_string conv field (Some (IS_ARRAY ht)) n"
  by (simp add: find_without_key)

lemma cb_assign_boolean_without_key:
  "k \<noteq> n \<Longrightarrow>
   cb_assign_boolean conv field (Some (IS_ARRAY (filter (\<lambda>e. fst e \<noteq> str_key k) ht))) n
     = cb_assign_boolean conv field (Some (IS_ARRAY ht)) n"
  by (simp add: find_without_key)

lemma cb_get_integer_without_key:
  "k \<noteq> n \<Longrightarrow>
   cb_get_integer (Some (IS_ARRAY (filter (\<lambda>e. fst e \<noteq> str_key k) ht))) n
     = cb_get_integer (Some (IS_ARRAY ht)) n"
  by (simp add: find_without_key)

lemma cb_assign_timeout_without_key:
  "k \<noteq> ''timeoutMilliseconds'' \<Longrightarrow>
   cb_assign_timeout req (Some (IS_ARRAY (filter (\<lambda>e. fst e \<noteq> str_key k) ht)))
     = cb_assign_timeout req (Some (IS_ARRAY ht))"
  by (simp add: find_without_key)

lemma read_mutation_token_without_key:
  assumes "k \<notin> {''partitionId'', ''partitionUuid'', ''sequenceNumber'', ''bucketName''}"
  shows "read_mutation_token (Some (IS_ARRAY (filter (\<lambda>e. fst e \<noteq> str_key k) ht))) item
       = read_mutation_token (Some (IS_ARRAY ht)) item"
  using assms unfolding read_mutation_token_def
  by (simp add: cb_assign_integer_without_key cb_assign_string_without_key
      del: cb_assign_integer.simps cb_assign_string.simps cong: sum.case_cong)

lemma read_mutation_tokens_without_key:
  assumes "k \<notin> {''partitionId'', ''partitionUuid'', ''sequenceNumber'', ''bucketName''}"
  shows "read_mutation_tokens vectors (Some (IS_ARRAY (filter (\<lambda>e. fst e \<noteq> str_key k) ht))) items
       = read_mutation_tokens vectors (Some (IS_ARRAY ht)) items"
proof (induction items arbitrary: vectors)
  case Nil
  show ?case by simp
next
  case (Cons item items)
  show ?case
    by (simp add: read_mutation_token_without_key [OF assms] Cons.IH split: sum.splits)
qed

lemma array_option_array:
  "array_option (Some (IS_ARRAY ht)) n body r =
     (case zend_symtable_str_find ht n of
        Some (IS_ARRAY entries) \<Rightarrow> body entries
      | _ \<Rightarrow> Inr r)"
  by (simp add: array_option_def)

lemma array_option_skip:
  assumes "zend_symtable_str_find ht n = Some v" and "\<forall>entries. v \<noteq> IS_ARRAY entries"
  shows "array_option (Some (IS_ARRAY ht)) n body r = Inr r"
  using assms by (cases v) (simp_all add: array_option_array)

lemma array_option_without_other_key:
  assumes "k \<noteq> n"
  shows "array_option (Some (IS_ARRAY (filter (\<lambda>e. fst e \<noteq> str_key k) ht))) n body r
       = array_option (Some (IS_ARRAY ht)) n body r"
  using assms by (simp add: array_option_array find_without_key)

lemma array_option_without_its_key:
  "array_option (Some (IS_ARRAY (filter (\<lambda>e. fst e \<noteq> str_key k) ht))) k body r = Inr r"
  by (simp add: array_option_array find_without_key)

lemmas without_key =
  cb_assign_integer_without_key cb_assign_string_without_key cb_assign_boolean_without_key
  cb_get_integer_without_key cb_assign_timeout_without_key read_mutation_tokens_without_key
  array_option_without_other_key array_option_without_its_key array_option_skip

lemmas helper_simps =
  cb_assign_integer.simps cb_assign_string.simps cb_assign_boolean.simps
  cb_get_integer.simps cb_assign_timeout.simps

lemma query_steps_without_skipped_key:
  assumes k: "k \<in> {''positionalParameters'', ''namedParameters'', ''raw'', ''consistentWith''}"
    and v: "zend_symtable_str_find ht k = Some v" "\<forall>entries. v \<noteq> IS_ARRAY entries"
  shows "query_steps (Some (IS_ARRAY (filter (\<lambda>e. fst e \<noteq> str_key k) ht)))
       = query_steps (Some (IS_ARRAY ht))"
proof -
  from k consider "k = ''positionalParameters''" | "k = ''namedParameters''" | "k = ''raw''"
    | "k = ''consistentWith''" by auto
  then show ?thesis
  proof cases
    case 1
    with v show ?thesis
      unfolding query_steps_def query_scan_consistency_def query_profile_def
      by (simp add: fun_eq_iff without_key del: helper_simps)
  next
    case 2
    with v show ?thesis
      unfolding query_steps_def query_scan_consistency_def query_profile_def
      by (simp add: fun_eq_iff without_key del: helper_simps)
  next
    case 3
    with v show ?thesis
      unfolding query_steps_def query_scan_consistency_def query_profile_def
      by (simp add: fun_eq_iff without_key del: helper_simps)
  next
    case 4
    with v show ?thesis
      unfolding query_steps_def query_scan_consistency_def query_profile_def
      by (simp add: fun_eq_iff without_key del: helper_simps)
  qed
qed

subsection \<open>Steps that leave a field alone\<close>

lemma run_steps_invariant:
  assumes "\<forall>step \<in> set steps. \<forall>r r'. step r = Inr r' \<longrightarrow> f r' = f r"
    and "run_steps steps r = Inr r'"
  shows "f r' = f r"
  using assms
proof (induction steps arbitrary: r)
  case Nil
  then show ?case by simp
next
  case (Cons step steps)
  from Cons.prems(2) obtain r1 where s: "step r = Inr r1" and rest: "run_steps steps r1 = Inr r'"
    by (auto split: sum.splits)
  from Cons.prems(1) s have "f r1 = f r" by auto
  moreover from Cons.IH [OF _ rest] Cons.prems(1) have "f r' = f r1" by auto
  ultimately show ?case by simp
qed

lemma query_steps_split:
  "run_steps (query_steps options) r =
     (case cb_assign_timeout r options of
        Inl e \<Rightarrow> Inl e
      | Inr r1 \<Rightarrow>
          (case query_scan_consistency options r1 of
             Inl e \<Rightarrow> Inl e
           | Inr r2 \<Rightarrow> run_steps (drop 2 (query_steps options)) r2))"
  by (simp add: query_steps_def split: sum.splits)

lemma later_steps_keep_scan_consistency:
  "\<forall>step \<in> set (drop 2 (query_steps (Some (IS_ARRAY ht)))).
     \<forall>r r'. step r = Inr r' \<longrightarrow> qr_scan_consistency r' = qr_scan_consistency r"
  unfolding query_steps_def query_profile_def
  by (auto simp: array_option_array split: sum.splits option.splits zval.splits if_splits
           simp del: helper_simps)

subsection \<open>The claims about the query decoder\<close>

text \<open>
  Claim C2, as the code has it at a concrete bag. The bag \<open>example_consistent_with\<close>
  holds two mutation-token records, for the buckets \<open>travel\<close> and \<open>beer\<close>, with
  different partition ids, UUIDs and sequence numbers. Decoding yields two tokens, one
  per record, but both are the empty token: no field of either record is read, since
  the loop body looks the four keys up in the option bag itself.
\<close>

theorem query_consistent_with_ignores_records:
  "map_sum id qr_mutation_state (query_request_of ''SELECT 1'' example_consistent_with)
     = Inr (Some [mutation_token_new, mutation_token_new])"
  by (simp add: query_request_of_def query_steps_def example_consistent_with_def
      query_request_new_def query_scan_consistency_def query_profile_def array_option_def
      zend_symtable_str_find_def read_mutation_token_def mutation_token_new_def Let_def)

text \<open>
  Claim C3 as stated fails for a query: with \<open>positionalParameters\<close> holding the
  integer 5, decoding succeeds and returns the request it started from.
\<close>

theorem query_positional_parameters_scalar_counterexample:
  "query_request_of ''SELECT 1''
     (Some (IS_ARRAY [(str_key ''positionalParameters'', IS_LONG 5)]))
   = Inr (query_request_new ''SELECT 1'')"
  by (simp add: query_request_of_def query_steps_def query_request_new_def
      query_scan_consistency_def query_profile_def array_option_def zend_symtable_str_find_def)

text \<open>
  Claim C3, amended. For a get whose \<open>withExpiry\<close> decodes, a \<open>projections\<close> value
  that is present, not null and not an array makes the operation fail with
  \<open>invalid_argument\<close> and a message that names the key. For a query, a value of
  \<open>positionalParameters\<close>, \<open>namedParameters\<close>, \<open>raw\<close> or \<open>consistentWith\<close> that is
  not an array is skipped: decoding gives what it gives for the bag without that key.
\<close>

theorem array_option_of_wrong_shape:
  "(zend_symtable_str_find ht ''projections'' = Some v \<and> v \<noteq> IS_NULL \<and>
    (\<forall>entries. v \<noteq> IS_ARRAY entries) \<and>
    cb_assign_boolean (\<lambda>b. b) False (Some (IS_ARRAY ht)) ''withExpiry'' = Inr with_expiry
    \<longrightarrow> document_get execute execute_projected bucket_s scope_s collection_s id_s
          (Some (IS_ARRAY ht))
        = Inl (validation_error
            (fmt_format ''expected array for options argument \"{}\"''
               [arg_str ''projections''])))
   \<and> (k \<in> {''positionalParameters'', ''namedParameters'', ''raw'', ''consistentWith''} \<and>
      zend_symtable_str_find ht k = Some v \<and> (\<forall>entries. v \<noteq> IS_ARRAY entries)
    \<longrightarrow> query_request_of statement_s (Some (IS_ARRAY ht))
        = query_request_of statement_s
            (Some (IS_ARRAY (filter (\<lambda>e. fst e \<noteq> str_key k) ht))))"
proof (intro conjI impI)
  assume a: "zend_symtable_str_find ht ''projections'' = Some v \<and> v \<noteq> IS_NULL \<and>
    (\<forall>entries. v \<noteq> IS_ARRAY entries) \<and>
    cb_assign_boolean (\<lambda>b. b) False (Some (IS_ARRAY ht)) ''withExpiry'' = Inr with_expiry"
  then have "cb_assign_vector_of_strings [] (Some (IS_ARRAY ht)) ''projections''
      = Inl (validation_error
          (fmt_format ''expected array for options argument \"{}\"''
             [arg_str ''projections'']))"
    by (cases v) simp_all
  with a show "document_get execute execute_projected bucket_s scope_s collection_s id_s
          (Some (IS_ARRAY ht))
        = Inl (validation_error
            (fmt_format ''expected array for options argument \"{}\"''
               [arg_str ''projections'']))"
    by (simp add: document_get_def
        del: cb_assign_boolean.simps cb_assign_vector_of_strings.simps)
next
  assume "k \<in> {''positionalParameters'', ''namedParameters'', ''raw'', ''consistentWith''} \<and>
      zend_symtable_str_find ht k = Some v \<and> (\<forall>entries. v \<noteq> IS_ARRAY entries)"
  then have "query_steps (Some (IS_ARRAY (filter (\<lambda>e. fst e \<noteq> str_key k) ht)))
      = query_steps (Some (IS_ARRAY ht))"
    by (intro query_steps_without_skipped_key) auto
  then show "query_request_of statement_s (Some (IS_ARRAY ht))
        = query_request_of statement_s
            (Some (IS_ARRAY (filter (\<lambda>e. fst e \<noteq> str_key k) ht)))"
    by (simp add: query_request_of_def)
qed

text \<open>
  A get with the integer 5 under \<open>projections\<close>, and a query with a string under
  \<open>raw\<close> next to a scan cap.
\<close>

theorem array_option_of_wrong_shape_witness:
  "(\<forall>(execute :: get_request \<Rightarrow> get_response)
      (execute_projected :: get_projected_request \<Rightarrow> get_projected_response).
      document_get execute execute_projected ''travel'' ''_default'' ''_default''
        ''airline_10'' (Some (IS_ARRAY [(str_key ''projections'', IS_LONG 5)]))
      = Inl (validation_error
          (fmt_format ''expected array for options argument \"{}\"''
             [arg_str ''projections''])))
   \<and> query_request_of ''SELECT 1''
       (Some (IS_ARRAY [(str_key ''raw'', IS_STRING ''x''), (str_key ''scanCap'', IS_LONG 3)]))
     = query_request_of ''SELECT 1'' (Some (IS_ARRAY [(str_key ''scanCap'', IS_LONG 3)]))"
proof -
  let ?g = "[(str_key ''projections'', IS_LONG 5)]"
  let ?q = "[(str_key ''raw'', IS_STRING ''x''), (str_key ''scanCap'', IS_LONG 3)]"
  have "document_get execute execute_projected ''travel'' ''_default'' ''_default''
      ''airline_10'' (Some (IS_ARRAY ?g))
    = Inl (validation_error
        (fmt_format ''expected array for options argument \"{}\"'' [arg_str ''projections'']))"
    for execute :: "get_request \<Rightarrow> get_response"
      and execute_projected :: "get_projected_request \<Rightarrow> get_projected_response"
    using array_option_of_wrong_shape [of ?g "IS_LONG 5" False execute execute_projected]
    by (simp add: zend_symtable_str_find_def)
  moreover have "query_request_of ''SELECT 1'' (Some (IS_ARRAY ?q))
    = query_request_of ''SELECT 1'' (Some (IS_ARRAY [(str_key ''scanCap'', IS_LONG 3)]))"
    using array_option_of_wrong_shape [of ?q "IS_STRING ''x''" _ _ _ _ _ _ _ "''raw''"]
    by (simp add: zend_symtable_str_find_def)
  ultimately show ?thesis by simp
qed

text \<open>
  Claim C4 as stated fails at the value 0: with \<open>scanConsistency\<close> holding the integer
  0, decoding succeeds and leaves the scan consistency unset.
\<close>

theorem query_scan_consistency_zero_counterexample:
  "query_request_of ''SELECT 1'' (Some (IS_ARRAY [(str_key ''scanConsistency'', IS_LONG 0)]))
   = Inr (query_request_new ''SELECT 1'')"
  by (simp add: query_request_of_def query_steps_def query_request_new_def
      query_scan_consistency_def query_profile_def array_option_def zend_symtable_str_find_def)

text \<open>
  A number greater than 2 as a signed 64-bit number is none of 0, 1 and 2, and read as
  an unsigned 64-bit number it is the same number.
\<close>

lemma sless_two:
  fixes l :: "64 word"
  assumes "2 <s l"
  shows "l \<notin> {0, 1, 2}" and "uint l = sint l"
proof -
  from assms have s: "2 < sint l"
    by (simp add: word_sless_alt)
  then show "l \<notin> {0, 1, 2}"
    by auto
  from s have "0 \<le> sint l"
    by simp
  moreover have "sint l < 2 ^ 64"
    using sint_lt [of l] by simp
  ultimately have "take_bit 64 (sint l) = sint l"
    by (simp add: take_bit_int_eq_self)
  then show "uint l = sint l"
    by (simp add: uint_sint)
qed

text \<open>
  Claim C4, amended. Let \<open>scanConsistency\<close> hold an integer \<open>l\<close> and let the timeout,
  which is decoded first, decode. Every \<open>l\<close> other than 0, 1 and 2 makes decoding fail
  with \<open>invalid_argument\<close>. For \<open>l\<close> greater than 2 the argument of the message is
  \<open>l\<close>, and the number it stands for is the received one. For 0, 1 and 2 the scan
  consistency step succeeds, and a request decoding returns has the scan consistency
  not-bounded for 1, request-plus for 2, and unset for 0.
\<close>

theorem query_scan_consistency_codes:
  assumes l: "zend_symtable_str_find ht ''scanConsistency'' = Some (IS_LONG l)"
    and t: "cb_assign_timeout (query_request_new statement_s) (Some (IS_ARRAY ht)) = Inr r1"
  shows "(l \<notin> {0, 1, 2} \<longrightarrow>
           (\<exists>m. query_request_of statement_s (Some (IS_ARRAY ht)) = Inl (validation_error m)))
       \<and> (2 <s l \<longrightarrow>
           query_request_of statement_s (Some (IS_ARRAY ht))
             = Inl (validation_error
                 (fmt_format ''invalid value used for scan consistency: {}'' [arg_u64 l]))
           \<and> uint l = sint l)
       \<and> (l \<in> {0, 1, 2} \<longrightarrow>
           query_scan_consistency (Some (IS_ARRAY ht)) r1
             = Inr (if l = 1 then r1\<lparr>qr_scan_consistency := Some not_bounded\<rparr>
                    else if l = 2 then r1\<lparr>qr_scan_consistency := Some request_plus\<rparr>
                    else r1))
       \<and> (l \<in> {0, 1, 2} \<and> query_request_of statement_s (Some (IS_ARRAY ht)) = Inr request \<longrightarrow>
           qr_scan_consistency request
             = (if l = 1 then Some not_bounded else if l = 2 then Some request_plus else None))"
proof -
  have rejected: "query_request_of statement_s (Some (IS_ARRAY ht))
      = Inl (validation_error
          (fmt_format ''invalid value used for scan consistency: {}'' [arg_u64 l]))"
    if "l \<notin> {0, 1, 2}"
  proof -
    from that have "0 < l" "l \<noteq> 1" "l \<noteq> 2"
      by (auto simp: word_greater_zero_iff)
    then have "query_scan_consistency (Some (IS_ARRAY ht)) r1
        = Inl (validation_error
            (fmt_format ''invalid value used for scan consistency: {}'' [arg_u64 l]))"
      using l by (simp add: query_scan_consistency_def)
    then show ?thesis
      using t by (simp add: query_request_of_def query_steps_split del: helper_simps)
  qed
  have fails: "l \<notin> {0, 1, 2} \<longrightarrow>
      (\<exists>m. query_request_of statement_s (Some (IS_ARRAY ht)) = Inl (validation_error m))"
    using rejected by blast
  have reports: "2 <s l \<longrightarrow>
      query_request_of statement_s (Some (IS_ARRAY ht))
        = Inl (validation_error
            (fmt_format ''invalid value used for scan consistency: {}'' [arg_u64 l]))
      \<and> uint l = sint l"
    using rejected sless_two [of l] by blast
  have accepted: "l \<in> {0, 1, 2} \<longrightarrow>
      query_scan_consistency (Some (IS_ARRAY ht)) r1
        = Inr (if l = 1 then r1\<lparr>qr_scan_consistency := Some not_bounded\<rparr>
               else if l = 2 then r1\<lparr>qr_scan_consistency := Some request_plus\<rparr>
               else r1)"
    using l by (auto simp: query_scan_consistency_def)
  have decoded: "l \<in> {0, 1, 2} \<and> query_request_of statement_s (Some (IS_ARRAY ht)) = Inr request
      \<longrightarrow> qr_scan_consistency request
        = (if l = 1 then Some not_bounded else if l = 2 then Some request_plus else None)"
  proof
    assume a: "l \<in> {0, 1, 2} \<and> query_request_of statement_s (Some (IS_ARRAY ht)) = Inr request"
    have none: "qr_scan_consistency r1 = None"
      using t by (auto simp: query_request_new_def split: option.splits zval.splits)
    from a t obtain r2 where
      r2: "query_scan_consistency (Some (IS_ARRAY ht)) r1 = Inr r2"
      and rest: "run_steps (drop 2 (query_steps (Some (IS_ARRAY ht)))) r2 = Inr request"
      by (auto simp: query_request_of_def query_steps_split split: sum.splits
          simp del: helper_simps)
    have "qr_scan_consistency request = qr_scan_consistency r2"
      using run_steps_invariant [OF later_steps_keep_scan_consistency rest] .
    moreover have "qr_scan_consistency r2
        = (if l = 1 then Some not_bounded else if l = 2 then Some request_plus else None)"
      using r2 l a none by (auto simp: query_scan_consistency_def)
    ultimately show "qr_scan_consistency request
        = (if l = 1 then Some not_bounded else if l = 2 then Some request_plus else None)"
      by simp
  qed
  show ?thesis
    by (intro conjI) (rule fails reports accepted decoded)+
qed

text \<open>The values 5 and 2, in bags that hold nothing else.\<close>

theorem query_scan_consistency_codes_witness:
  "query_request_of ''SELECT 1'' (Some (IS_ARRAY [(str_key ''scanConsistency'', IS_LONG 5)]))
     = Inl (validation_error
         (fmt_format ''invalid value used for scan consistency: {}'' [arg_u64 5]))
   \<and> uint (5 :: 64 word) = 5
   \<and> query_scan_consistency (Some (IS_ARRAY [(str_key ''scanConsistency'', IS_LONG 2)]))
       (query_request_new ''SELECT 1'')
     = Inr ((query_request_new ''SELECT 1'')\<lparr>qr_scan_consistency := Some request_plus\<rparr>)"
proof -
  let ?five = "[(str_key ''scanConsistency'', IS_LONG 5)]"
  let ?two = "[(str_key ''scanConsistency'', IS_LONG 2)]"
  have five: "zend_symtable_str_find ?five ''scanConsistency'' = Some (IS_LONG 5)"
    and two: "zend_symtable_str_find ?two ''scanConsistency'' = Some (IS_LONG 2)"
    by (simp_all add: zend_symtable_str_find_def)
  have t5: "cb_assign_timeout (query_request_new ''SELECT 1'') (Some (IS_ARRAY ?five))
      = Inr (query_request_new ''SELECT 1'')"
    and t2: "cb_assign_timeout (query_request_new ''SELECT 1'') (Some (IS_ARRAY ?two))
      = Inr (query_request_new ''SELECT 1'')"
    by (simp_all add: zend_symtable_str_find_def)
  have pos: "2 <s (5 :: 64 word)"
    by (simp add: word_sless_alt)
  from query_scan_consistency_codes [OF five t5] pos
  have "query_request_of ''SELECT 1'' (Some (IS_ARRAY ?five))
     = Inl (validation_error
         (fmt_format ''invalid value used for scan consistency: {}'' [arg_u64 5]))"
    by blast
  moreover from query_scan_consistency_codes [OF two t2]
  have "query_scan_consistency (Some (IS_ARRAY ?two)) (query_request_new ''SELECT 1'')
     = Inr ((query_request_new ''SELECT 1'')\<lparr>qr_scan_consistency := Some request_plus\<rparr>)"
    by simp
  ultimately show ?thesis by simp
qed

subsection \<open>Null and non-array option bags\<close>

text \<open>
  Claim C10. Each of the seven helpers, given no option bag (a null pointer or the null
  value), succeeds and returns the field as it was (\<^verbatim>\<open>cb_get_integer\<close>, which has
  no field, returns the number 0). Given a bag that is present and neither null nor an
  array, each fails with \<open>invalid_argument\<close>. The cluster-level \<^verbatim>\<open>apply_options\<close>
  instead rejects the null pointer and the null value with \<open>invalid_argument\<close>.
\<close>

theorem option_bag_null_or_not_an_array:
  fixes req :: "'a timed_request_scheme" and dreq :: "'b durable_request_scheme"
  shows
  "(options \<in> {None, Some IS_NULL} \<longrightarrow>
      cb_assign_timeout req options = Inr req
    \<and> cb_assign_durability dreq options = Inr dreq
    \<and> cb_assign_boolean bconv bfield options name = Inr bfield
    \<and> cb_assign_integer iconv ifield options name = Inr ifield
    \<and> cb_assign_string sconv sfield options name = Inr sfield
    \<and> cb_assign_vector_of_strings vfield options name = Inr vfield
    \<and> cb_get_integer options name = Inr 0)
   \<and> (options = Some v \<and> v \<noteq> IS_NULL \<and> (\<forall>ht. v \<noteq> IS_ARRAY ht) \<longrightarrow>
      cb_assign_timeout req options
        = Inl (validation_error (text_message ''expected array for options argument''))
    \<and> cb_assign_durability dreq options
        = Inl (validation_error (text_message ''expected array for options argument''))
    \<and> cb_assign_boolean bconv bfield options name
        = Inl (validation_error (text_message ''expected array for options argument''))
    \<and> cb_assign_integer iconv ifield options name
        = Inl (validation_error (text_message ''expected array for options argument''))
    \<and> cb_assign_string sconv sfield options name
        = Inl (validation_error (text_message ''expected array for options argument''))
    \<and> cb_assign_vector_of_strings vfield options name
        = Inl (validation_error (text_message ''expected array for options''))
    \<and> cb_get_integer options name
        = Inl (validation_error (text_message ''expected array for options argument'')))
   \<and> (options \<in> {None, Some IS_NULL} \<longrightarrow>
      apply_options connstr_options options
        = Inl (validation_error (text_message ''expected array for cluster options'')))"
proof -
  have absent: "cb_assign_timeout req options = Inr req
    \<and> cb_assign_durability dreq options = Inr dreq
    \<and> cb_assign_boolean bconv bfield options name = Inr bfield
    \<and> cb_assign_integer iconv ifield options name = Inr ifield
    \<and> cb_assign_string sconv sfield options name = Inr sfield
    \<and> cb_assign_vector_of_strings vfield options name = Inr vfield
    \<and> cb_get_integer options name = Inr 0"
    if "options \<in> {None, Some IS_NULL}"
    using that by auto
  have scalar: "cb_assign_timeout req options
        = Inl (validation_error (text_message ''expected array for options argument''))
    \<and> cb_assign_durability dreq options
        = Inl (validation_error (text_message ''expected array for options argument''))
    \<and> cb_assign_boolean bconv bfield options name
        = Inl (validation_error (text_message ''expected array for options argument''))
    \<and> cb_assign_integer iconv ifield options name
        = Inl (validation_error (text_message ''expected array for options argument''))
    \<and> cb_assign_string sconv sfield options name
        = Inl (validation_error (text_message ''expected array for options argument''))
    \<and> cb_assign_vector_of_strings vfield options name
        = Inl (validation_error (text_message ''expected array for options''))
    \<and> cb_get_integer options name
        = Inl (validation_error (text_message ''expected array for options argument''))"
    if "options = Some v \<and> v \<noteq> IS_NULL \<and> (\<forall>ht. v \<noteq> IS_ARRAY ht)"
    using that by (cases v) simp_all
  have cluster: "apply_options connstr_options options
        = Inl (validation_error (text_message ''expected array for cluster options''))"
    if "options \<in> {None, Some IS_NULL}"
    using that by auto
  from absent scalar cluster show ?thesis by blast
qed

text \<open>
  The timeout helper and \<^verbatim>\<open>apply_options\<close> with the null value, and the boolean
  helper with the integer 1 in place of the bag.
\<close>

theorem option_bag_null_or_not_an_array_witness:
  "cb_assign_timeout \<lparr>timeout = Some 2500\<rparr> (Some IS_NULL) = Inr \<lparr>timeout = Some 2500\<rparr>
   \<and> cb_get_integer None ''scanConsistency'' = Inr 0
   \<and> cb_assign_boolean Some None (Some (IS_LONG 1)) ''readonly''
     = Inl (validation_error (text_message ''expected array for options argument''))
   \<and> apply_options cluster_options_new (Some IS_NULL)
     = Inl (validation_error (text_message ''expected array for cluster options''))"
proof -
  note null = option_bag_null_or_not_an_array
    [where options = "Some IS_NULL" and req = "\<lparr>timeout = Some 2500\<rparr>"
       and connstr_options = cluster_options_new]
  note absent = option_bag_null_or_not_an_array
    [where options = None and name = "''scanConsistency''"]
  note scalar = option_bag_null_or_not_an_array
    [where options = "Some (IS_LONG 1)" and v = "IS_LONG 1" and bconv = Some
       and bfield = None and name = "''readonly''"]
  from null have "cb_assign_timeout \<lparr>timeout = Some 2500\<rparr> (Some IS_NULL)
      = Inr \<lparr>timeout = Some 2500\<rparr>"
    and "apply_options cluster_options_new (Some IS_NULL)
      = Inl (validation_error (text_message ''expected array for cluster options''))"
    by simp_all
  moreover from absent have "cb_get_integer None ''scanConsistency'' = Inr 0"
    by simp
  moreover from scalar have "cb_assign_boolean Some None (Some (IS_LONG 1)) ''readonly''
      = Inl (validation_error (text_message ''expected array for options argument''))"
    by simp
  ultimately show ?thesis by simp
qed

section \<open>Properties of the key-value operations\<close>

text \<open>
  Claim C7. An upsert succeeds when its options decode to a request and the engine
  completes that request with no error status. The output then holds the \<open>cas\<close> entry
  in every case, and it holds the \<open>mutationToken\<close> entry exactly when the token of the
  response has a non-empty bucket name and a partition UUID greater than zero; the
  entry is the token of the response.
\<close>

theorem document_upsert_mutation_token_iff_valid:
  assumes decoded:
      "document_upsert_request bucket_s scope_s collection_s id_s value_s flags options
         = Inr request"
    and completed: "kv_ec (kv_ctx (execute request)) = no_error"
  shows "\<exists>rv. document_upsert execute bucket_s scope_s collection_s id_s value_s flags options
           = Inr rv
         \<and> map_of rv (str_key ''cas'')
           = Some (IS_STRING (to_hex (unat (up_cas (execute request)))))
         \<and> map_of rv (str_key ''mutationToken'')
           = (if bucket_name (up_token (execute request)) \<noteq> []
                 \<and> 0 < partition_uuid (up_token (execute request))
              then Some (mutation_token_to_zval (up_token (execute request)))
              else None)
         \<and> is_mutation_token_valid (up_token (execute request))
           = (map_of rv (str_key ''mutationToken'') \<noteq> None)"
proof -
  have run: "key_value_execute ''document_upsert'' execute request
      = Inr (execute request, no_error_info)"
    using completed by (simp add: key_value_execute_def Let_def)
  have none: "ec no_error_info = no_error"
    by (simp add: no_error_info_def)
  show ?thesis
  proof (cases "is_mutation_token_valid (up_token (execute request))")
    case True
    then show ?thesis
      using decoded run none
      by (simp add: document_upsert_def is_mutation_token_valid_def Let_def)
  next
    case False
    then show ?thesis
      using decoded run none
      by (auto simp: document_upsert_def is_mutation_token_valid_def Let_def)
  qed
qed

text \<open>
  Two successful upserts with no options: the token of the first response is valid,
  the token of the second has partition UUID zero.
\<close>

theorem document_upsert_mutation_token_iff_valid_witness:
  "(\<exists>rv. document_upsert
           (\<lambda>r. example_upsert_response
              \<lparr>partition_uuid = 1, sequence_number = 2, partition_id = 3, bucket_name = ''travel''\<rparr>)
           ''travel'' ''_default'' ''_default'' ''airline_10'' ''{}'' 0 None = Inr rv
         \<and> map_of rv (str_key ''cas'') = Some (IS_STRING ''ff'')
         \<and> map_of rv (str_key ''mutationToken'') \<noteq> None)
   \<and> (\<exists>rv. document_upsert
           (\<lambda>r. example_upsert_response
              \<lparr>partition_uuid = 0, sequence_number = 2, partition_id = 3, bucket_name = ''travel''\<rparr>)
           ''travel'' ''_default'' ''_default'' ''airline_10'' ''{}'' 0 None = Inr rv
         \<and> map_of rv (str_key ''cas'') = Some (IS_STRING ''ff'')
         \<and> map_of rv (str_key ''mutationToken'') = None)"
proof -
  let ?good = "\<lparr>partition_uuid = 1, sequence_number = 2, partition_id = 3,
                 bucket_name = ''travel''\<rparr>"
  let ?bad = "\<lparr>partition_uuid = 0, sequence_number = 2, partition_id = 3,
                bucket_name = ''travel''\<rparr>"
  have decoded: "\<exists>request.
      document_upsert_request ''travel'' ''_default'' ''_default'' ''airline_10'' ''{}'' 0 None
        = Inr request"
    by (simp add: document_upsert_request_def Let_def)
  then obtain request where request:
      "document_upsert_request ''travel'' ''_default'' ''_default'' ''airline_10'' ''{}'' 0 None
        = Inr request" ..
  have ok: "kv_ec (kv_ctx (example_upsert_response token)) = no_error" for token
    by (simp add: example_upsert_response_def success_raw_context_def)
  have cas: "to_hex (unat (up_cas (example_upsert_response token))) = ''ff''" for token
    by (simp add: example_upsert_response_def to_hex.simps hex_digit_def)
  have tok: "up_token (example_upsert_response token) = token" for token
    by (simp add: example_upsert_response_def)
  from document_upsert_mutation_token_iff_valid
         [OF request, of "\<lambda>r. example_upsert_response ?good", OF ok]
  have first: "\<exists>rv. document_upsert (\<lambda>r. example_upsert_response ?good)
           ''travel'' ''_default'' ''_default'' ''airline_10'' ''{}'' 0 None = Inr rv
         \<and> map_of rv (str_key ''cas'') = Some (IS_STRING ''ff'')
         \<and> map_of rv (str_key ''mutationToken'') \<noteq> None"
    unfolding cas tok by auto
  from document_upsert_mutation_token_iff_valid
         [OF request, of "\<lambda>r. example_upsert_response ?bad", OF ok]
  have second: "\<exists>rv. document_upsert (\<lambda>r. example_upsert_response ?bad)
           ''travel'' ''_default'' ''_default'' ''airline_10'' ''{}'' 0 None = Inr rv
         \<and> map_of rv (str_key ''cas'') = Some (IS_STRING ''ff'')
         \<and> map_of rv (str_key ''mutationToken'') = None"
    unfolding cas tok by auto
  from first second show ?thesis by (rule conjI)
qed

subsection \<open>The status of the response\<close>

lemma key_value_execute_cases:
  "key_value_execute operation execute request =
     (if kv_ec (kv_ctx (execute request)) = no_error then Inr (execute request, no_error_info)
      else case build_error_context (kv_ctx (execute request)) of
             Inl stop \<Rightarrow> Inl stop
           | Inr c \<Rightarrow>
               Inr (execute request,
                 \<lparr>ec = kv_ec (kv_ctx (execute request)),
                  message = fmt_format ''unable to execute KV operation \"{}\": {}, {}''
                    [arg_str operation, arg_ec_value (kv_ec (kv_ctx (execute request))),
                     arg_ec_message (kv_ec (kv_ctx (execute request)))],
                  ctx = key_value_context c\<rparr>))"
  by (simp add: key_value_execute_def Let_def)

text \<open>
  When the timeout option decodes and the error context builder is defined on the raw
  context of the response, \<^verbatim>\<open>document_exists\<close> treats the status as its guard
  says: \<open>document_not_found\<close> gives the output array, with the \<open>exists\<close> entry the
  accessor of the response reports, and any other error status gives the operation
  error.
\<close>

lemma document_exists_by_status:
  assumes decoded: "cb_assign_timeout
        \<lparr>timeout = None,
         e_id = \<lparr>doc_bucket = bucket_s, doc_scope = scope_s, doc_collection = collection_s,
                 doc_key = id_s\<rparr>\<rparr> options = Inr request"
    and built: "build_error_context (kv_ctx (execute request)) = Inr c"
  shows "(kv_ec (kv_ctx (execute request)) = document_not_found
          \<and> \<not> resp_exists (execute request)
          \<longrightarrow> (\<exists>rv. document_exists resp_exists execute bucket_s scope_s collection_s id_s
                       options = Inr rv
                \<and> map_of rv (str_key ''exists'') = Some IS_FALSE))
       \<and> (kv_ec (kv_ctx (execute request)) \<notin> {no_error, document_not_found}
          \<longrightarrow> document_exists resp_exists execute bucket_s scope_s collection_s id_s options
             = Inl (failure
                 \<lparr>ec = kv_ec (kv_ctx (execute request)),
                  message = fmt_format ''unable to execute KV operation \"{}\": {}, {}''
                    [arg_str ''document_exists'',
                     arg_ec_value (kv_ec (kv_ctx (execute request))),
                     arg_ec_message (kv_ec (kv_ctx (execute request)))],
                  ctx = key_value_context c\<rparr>))"
  using decoded built
  by (simp add: document_exists_def key_value_execute_cases Let_def add_assoc_bool_def
      del: cb_assign_timeout.simps)

text \<open>
  Claim C6, as the code has it at a concrete response. The engine completes the exists
  request with the status \<open>document_not_found\<close> and the raw context
  \<open>not_found_raw_context\<close>, which carries enhanced error info and no error map entry.
  Since the status is set, \<^verbatim>\<open>key_value_execute\<close> builds the error context before
  \<^verbatim>\<open>document_exists\<close> looks at the status, and \<^verbatim>\<open>build_error_context\<close>
  dereferences the empty \<^verbatim>\<open>error_map_info\<close>: the call has undefined behaviour
  instead of returning success with \<open>exists\<close> false, whatever the accessor of the
  response says.
\<close>

theorem document_exists_not_found_undefined:
  "document_exists resp_exists (\<lambda>r. example_exists_response not_found_raw_context)
     ''travel'' ''_default'' ''_default'' ''airline_10'' None = Inl undefined_behaviour"
proof -
  have "build_error_context not_found_raw_context = Inl undefined_behaviour"
    by (simp add: build_error_context_def not_found_raw_context_def success_raw_context_def
        Let_def)
  then have "key_value_execute ''document_exists''
      (\<lambda>r. example_exists_response not_found_raw_context) request
    = Inl undefined_behaviour" for request :: exists_request
    by (simp add: key_value_execute_cases example_exists_response_def
        not_found_raw_context_def)
  then show ?thesis
    by (simp add: document_exists_def)
qed

section \<open>Properties of the connection lifecycle\<close>



text \<open>
  Claim C9. Let the first response of the probe be \<open>r1\<close>, let opening the bucket in
  the state after it report \<open>code\<close>, and let the response of a probe in the state
  after that be \<open>r2\<close>. When \<open>r1\<close> has the status "service not available" and a bucket
  name is given, the call opens that bucket; if that fails it returns the empty
  string, in the state after the opening; otherwise it probes once more and returns
  in the state after the second probe, whatever \<open>r2\<close> is: the empty string if \<open>r2\<close>
  has an error status or no node, the version of the first node otherwise. In every
  other case it returns after the first probe, the empty string if \<open>r1\<close> has an error
  status or no node. The result is a string in each case: no error reaches the
  caller.
\<close>

theorem impl_cluster_version_retries_once:
  assumes first: "describe s = (r1, s1)"
    and opened: "open_bucket bucket_name_s s1 = (code, s2)"
    and second: "describe s2 = (r2, s3)"
  shows "(describe_ec r1 = service_not_available \<and> bucket_name_s \<noteq> [] \<longrightarrow>
          impl_cluster_version describe open_bucket bucket_name_s s =
           (if code \<noteq> no_error then ([], s2)
            else if describe_ec r2 \<noteq> no_error \<or> describe_nodes r2 = [] then ([], s3)
            else (version (hd (describe_nodes r2)), s3)))
       \<and> (\<not> (describe_ec r1 = service_not_available \<and> bucket_name_s \<noteq> []) \<longrightarrow>
          impl_cluster_version describe open_bucket bucket_name_s s =
           (if describe_ec r1 \<noteq> no_error \<or> describe_nodes r1 = [] then ([], s1)
            else (version (hd (describe_nodes r1)), s1)))"
proof (intro conjI impI)
  assume a: "describe_ec r1 = service_not_available \<and> bucket_name_s \<noteq> []"
  have retry: "impl_cluster_version describe open_bucket [] s2 =
      (if describe_ec r2 \<noteq> no_error \<or> describe_nodes r2 = [] then ([], s3)
       else (version (hd (describe_nodes r2)), s3))"
    using second by (subst impl_cluster_version.simps) simp
  show "impl_cluster_version describe open_bucket bucket_name_s s =
           (if code \<noteq> no_error then ([], s2)
            else if describe_ec r2 \<noteq> no_error \<or> describe_nodes r2 = [] then ([], s3)
            else (version (hd (describe_nodes r2)), s3))"
    using a first opened retry
    by (subst impl_cluster_version.simps) (simp add: impl_bucket_open_def no_error_info_def)
next
  assume "\<not> (describe_ec r1 = service_not_available \<and> bucket_name_s \<noteq> [])"
  then show "impl_cluster_version describe open_bucket bucket_name_s s =
           (if describe_ec r1 \<noteq> no_error \<or> describe_nodes r1 = [] then ([], s1)
            else (version (hd (describe_nodes r1)), s1))"
    using first by (subst impl_cluster_version.simps) auto
qed

text \<open>
  With engines that record their calls: the probe, the opening of the bucket and one
  more probe when the bucket opens; the probe and the opening when it does not.
\<close>

theorem impl_cluster_version_retries_once_witness:
  "impl_cluster_version recording_describe recording_open_bucket ''travel'' []
     = (''7.0.2'', [describe_call, open_bucket_call ''travel'', describe_call])
   \<and> impl_cluster_version recording_describe recording_open_bucket_failing ''travel'' []
     = ([], [describe_call, open_bucket_call ''travel''])"
proof -
  have d0: "recording_describe [] =
      (\<lparr>describe_ec = service_not_available, describe_nodes = []\<rparr>, [describe_call])"
    by (simp add: recording_describe_def)
  have o1: "recording_open_bucket ''travel'' [describe_call]
      = (no_error, [describe_call, open_bucket_call ''travel''])"
    by (simp add: recording_open_bucket_def)
  have o1f: "recording_open_bucket_failing ''travel'' [describe_call]
      = (engine_errc 10, [describe_call, open_bucket_call ''travel''])"
    by (simp add: recording_open_bucket_failing_def)
  have d2: "recording_describe [describe_call, open_bucket_call ''travel'']
      = (\<lparr>describe_ec = no_error, describe_nodes = [\<lparr>version = ''7.0.2''\<rparr>]\<rparr>,
         [describe_call, open_bucket_call ''travel'', describe_call])"
    by (simp add: recording_describe_def)
  from impl_cluster_version_retries_once
         [where describe = recording_describe and open_bucket = recording_open_bucket,
          OF d0 o1 d2]
       impl_cluster_version_retries_once
         [where describe = recording_describe
            and open_bucket = recording_open_bucket_failing, OF d0 o1f d2]
  show ?thesis by simp
qed

end
